theory Spec2Isabelle
  imports Main
begin

section \<open>JavaScript values and errors\<close>

text \<open>
  The values that flow through the library: arguments of directory calls, log messages
  and their metadata, search entries. \<open>LdapChange\<close> is the object built by
  \<^verbatim>\<open>new Ldap.Change({operation: ..., modification: ...})\<close>; \<open>JBuffer\<close> is a Node
  buffer, a sequence of bytes. Strings are sequences of code units below 256.
\<close>

datatype jsval =
    Undefined
  | Null
  | JBool bool
  | JNum int
  | JStr string
  | JBuffer "nat list"
  | JArray "jsval list"
  | JObject "(string \<times> jsval) list"
  | LdapChange string "(string \<times> jsval) list"

text \<open>
  What can be thrown or can reject a promise. An error object carries the two properties
  that \<^verbatim>\<open>isCredentialFailedError\<close> reads, \<^verbatim>\<open>code\<close> and \<^verbatim>\<open>lde_message\<close>, each of
  which may be absent (\<open>None\<close>). \<open>ErrorInstance\<close> is an instance of a named error class
  that sets neither property; \<open>TypeError\<close> is what the engine throws when a method of
  \<^verbatim>\<open>undefined\<close> is called.
\<close>

datatype jserror =
    ErrorObject "int option" "string option"
  | ErrorInstance string
  | TypeError

fun code :: "jserror \<Rightarrow> int option" where
  "code (ErrorObject c m) = c"
| "code (ErrorInstance n) = None"
| "code TypeError = None"

fun lde_message :: "jserror \<Rightarrow> string option" where
  "lde_message (ErrorObject c m) = m"
| "lde_message (ErrorInstance n) = None"
| "lde_message TypeError = None"


section \<open>EventLogger.js\<close>

text \<open>
  A listener is a callback applied to the arguments of an event; it returns (\<open>None\<close>) or
  throws (\<open>Some e\<close>). Listeners are registered under an identity (a number), so that one
  can be removed again. A listener does not call back into the logger.

  The logger holds \<^verbatim>\<open>eventBuffer\<close>, the listeners of each event name in registration
  order, and, as the observable effect of calling listeners, the list of deliveries made
  so far (listener identity and arguments).
\<close>

type_synonym listenerFn = "jsval list \<Rightarrow> jserror option"

record logger =
  eventBuffer :: "jsval list list"
  listeners :: "string \<Rightarrow> (nat \<times> listenerFn) list"
  received :: "(nat \<times> jsval list) list"

definition new_EventLogger :: logger where
  "new_EventLogger = \<lparr> eventBuffer = [], listeners = (\<lambda>eventName. []), received = [] \<rparr>"

definition listenerCount :: "logger \<Rightarrow> string \<Rightarrow> nat" where
  "listenerCount L eventName = length (listeners L eventName)"

definition bufferSize :: "logger \<Rightarrow> nat" where
  "bufferSize L = length (eventBuffer L)"

text \<open>
  Node's own \<^verbatim>\<open>emit\<close>, kept by the constructor as \<^verbatim>\<open>this._emit\<close>: the listeners
  of the event are called in registration order; the first one that throws ends the
  call with its exception. It returns whether the event had listeners. (What Node does
  for an \<^verbatim>\<open>error\<close> event without listeners is not part of this emitter; the library
  emits \<^verbatim>\<open>log\<close> events only.)
\<close>

fun call_listeners ::
  "(nat \<times> listenerFn) list \<Rightarrow> jsval list \<Rightarrow> (nat \<times> jsval list) list
     \<Rightarrow> (nat \<times> jsval list) list \<times> jserror option" where
  "call_listeners [] args rcv = (rcv, None)"
| "call_listeners ((i, f) # ls) args rcv =
     (case f args of
        None \<Rightarrow> call_listeners ls args (rcv @ [(i, args)])
      | Some e \<Rightarrow> (rcv @ [(i, args)], Some e))"

definition emit_orig :: "string \<Rightarrow> jsval list \<Rightarrow> logger \<Rightarrow> (jserror + jsval) \<times> logger" where
  "emit_orig eventName args L =
     (case call_listeners (listeners L eventName) args (received L) of
        (rcv, None) \<Rightarrow> (Inr (JBool (listeners L eventName \<noteq> [])), L\<lparr>received := rcv\<rparr>)
      | (rcv, Some e) \<Rightarrow> (Inl e, L\<lparr>received := rcv\<rparr>))"

text \<open>
  The \<^verbatim>\<open>emit\<close> that the constructor installs over Node's. A \<^verbatim>\<open>log\<close> event goes to
  the listeners when there are any; otherwise the oldest buffered event is dropped
  when the buffer already holds more than 99, and the arguments are pushed
  (\<^verbatim>\<open>push\<close> returns the new length).
\<close>

definition emit :: "string \<Rightarrow> jsval list \<Rightarrow> logger \<Rightarrow> (jserror + jsval) \<times> logger" where
  "emit eventName args L =
     (if eventName = ''log'' then
        (if listenerCount L eventName > 0 then emit_orig eventName args L
         else
           (let buf = (if length (eventBuffer L) > 99 then tl (eventBuffer L) else eventBuffer L)
            in (Inr (JNum (int (length (buf @ [args])))), L\<lparr>eventBuffer := buf @ [args]\<rparr>)))
      else emit_orig eventName args L)"

text \<open>
  The \<^verbatim>\<open>newListener\<close> handler of the constructor, for a new listener of \<^verbatim>\<open>log\<close>
  while events wait: \<^verbatim>\<open>for(item = shift(); item; item = shift()) listenerFn(...item)\<close>.
  An item is an array, which is truthy even when empty, so the loop ends only when
  \<^verbatim>\<open>shift()\<close> returns \<^verbatim>\<open>undefined\<close> on the empty buffer, or when the listener throws
  (the item it was given is already out of the buffer).
\<close>

fun drain ::
  "nat \<Rightarrow> listenerFn \<Rightarrow> jsval list list \<Rightarrow> (nat \<times> jsval list) list
     \<Rightarrow> jsval list list \<times> (nat \<times> jsval list) list \<times> jserror option" where
  "drain i listenerFn [] rcv = ([], rcv, None)"
| "drain i listenerFn (item # buf) rcv =
     (case listenerFn item of
        None \<Rightarrow> drain i listenerFn buf (rcv @ [(i, item)])
      | Some e \<Rightarrow> (buf, rcv @ [(i, item)], Some e))"

definition newListener :: "string \<Rightarrow> nat \<Rightarrow> listenerFn \<Rightarrow> logger \<Rightarrow> jserror option \<times> logger" where
  "newListener eventName i listenerFn L =
     (if eventName = ''log'' \<and> length (eventBuffer L) > 0 then
        (case drain i listenerFn (eventBuffer L) (received L) of
           (buf, rcv, r) \<Rightarrow> (r, L\<lparr>eventBuffer := buf, received := rcv\<rparr>))
      else (None, L))"

text \<open>
  \<^verbatim>\<open>on(eventName, listenerFn)\<close>: Node announces the listener to the
  \<^verbatim>\<open>newListener\<close> handler first and appends it to the listeners of the event after;
  when the handler throws, the listener is not added.
\<close>

definition on :: "string \<Rightarrow> nat \<Rightarrow> listenerFn \<Rightarrow> logger \<Rightarrow> jserror option \<times> logger" where
  "on eventName i listenerFn L =
     (case newListener eventName i listenerFn L of
        (Some e, L') \<Rightarrow> (Some e, L')
      | (None, L') \<Rightarrow>
          (None, L'\<lparr>listeners := (listeners L')(eventName := listeners L' eventName @ [(i, listenerFn)])\<rparr>))"

text \<open>
  \<^verbatim>\<open>removeListener(eventName, listener)\<close> of Node removes at most one registration
  of the listener, the one added last.
\<close>

fun remove_first :: "nat \<Rightarrow> (nat \<times> listenerFn) list \<Rightarrow> (nat \<times> listenerFn) list" where
  "remove_first i [] = []"
| "remove_first i ((j, f) # ls) = (if i = j then ls else (j, f) # remove_first i ls)"

definition removeListener :: "string \<Rightarrow> nat \<Rightarrow> logger \<Rightarrow> logger" where
  "removeListener eventName i L =
     L\<lparr>listeners := (listeners L)(eventName := rev (remove_first i (rev (listeners L eventName))))\<rparr>"

text \<open>
  \<^verbatim>\<open>log(message, metadata) { this._emit('log', message, metadata); }\<close>: the helper
  calls the emitter that was saved before the override; its result is dropped, an
  exception of a listener is not caught.
\<close>

definition log :: "jsval \<Rightarrow> jsval \<Rightarrow> logger \<Rightarrow> jserror option \<times> logger" where
  "log message metadata L =
     (case emit_orig ''log'' [message, metadata] L of
        (Inl e, L') \<Rightarrow> (Some e, L')
      | (Inr v, L') \<Rightarrow> (None, L'))"

section \<open>PooledLdapConnection.js\<close>

subsection \<open>Promises and the world they run in\<close>

text \<open>
  Everything the library touches outside itself: the process-wide \<^verbatim>\<open>EventLogger\<close>,
  and the calls made on the pool and on the client, in the order they are made.
  \<open>PoolRelease c\<close> is \<^verbatim>\<open>pool.release(c)\<close>, \<open>PoolRemove c\<close> is \<^verbatim>\<open>pool.remove(c)\<close>,
  \<open>ClientCall c f args\<close> is \<^verbatim>\<open>c[f].apply(c, args)\<close>, \<open>SearchSettled\<close> is the moment the
  promise returned by \<^verbatim>\<open>search\<close> settles, \<open>UncaughtError e\<close> an \<^verbatim>\<open>error\<close> event with
  no listener.
\<close>

datatype action =
    PoolRelease nat
  | PoolRemove nat
  | ClientCall nat string "jsval list"
  | SearchSettled
  | UncaughtError jserror

record world =
  events :: logger
  trace :: "action list"

text \<open>
  A promise chain is run to its outcome: from a world it gives \<open>Inr v\<close> (resolved with
  \<open>v\<close>) or \<open>Inl e\<close> (rejected with \<open>e\<close>) and the world after. A handler that throws is
  a handler whose outcome is \<open>Inl e\<close>. The four combinators are bluebird's
  \<^verbatim>\<open>.then\<close>, \<^verbatim>\<open>.catch\<close>, \<^verbatim>\<open>.finally\<close> and \<^verbatim>\<open>.tap\<close>: \<^verbatim>\<open>.finally\<close> runs
  its handler on either outcome and keeps the outcome unless the handler throws;
  \<^verbatim>\<open>.tap\<close> runs its handler on a resolved value only and keeps the value unless the
  handler throws.
\<close>

type_synonym ('a, 'z) promise = "'z world_scheme \<Rightarrow> (jserror + 'a) \<times> 'z world_scheme"

definition resolved :: "'a \<Rightarrow> ('a, 'z) promise" where
  "resolved v = (\<lambda>w. (Inr v, w))"

definition rejected :: "jserror \<Rightarrow> ('a, 'z) promise" where
  "rejected e = (\<lambda>w. (Inl e, w))"

definition p_then :: "('a, 'z) promise \<Rightarrow> ('a \<Rightarrow> ('b, 'z) promise) \<Rightarrow> ('b, 'z) promise" where
  "p_then p handler = (\<lambda>w. case p w of (Inr v, w') \<Rightarrow> handler v w' | (Inl e, w') \<Rightarrow> (Inl e, w'))"

definition p_catch :: "('a, 'z) promise \<Rightarrow> (jserror \<Rightarrow> ('a, 'z) promise) \<Rightarrow> ('a, 'z) promise" where
  "p_catch p handler = (\<lambda>w. case p w of (Inr v, w') \<Rightarrow> (Inr v, w') | (Inl e, w') \<Rightarrow> handler e w')"

definition p_finally :: "('a, 'z) promise \<Rightarrow> (unit, 'z) promise \<Rightarrow> ('a, 'z) promise" where
  "p_finally p handler =
     (\<lambda>w. case p w of
        (r, w') \<Rightarrow> (case handler w' of (Inl e, w'') \<Rightarrow> (Inl e, w'') | (Inr u, w'') \<Rightarrow> (r, w'')))"

definition p_tap :: "('a, 'z) promise \<Rightarrow> ('a \<Rightarrow> (unit, 'z) promise) \<Rightarrow> ('a, 'z) promise" where
  "p_tap p handler =
     (\<lambda>w. case p w of
        (Inr v, w') \<Rightarrow> (case handler v w' of (Inl e, w'') \<Rightarrow> (Inl e, w'') | (Inr u, w'') \<Rightarrow> (Inr v, w''))
      | (Inl e, w') \<Rightarrow> (Inl e, w'))"

text \<open>\<^verbatim>\<open>EventLogger.log(message, metadata)\<close> as a statement: it returns, or throws what a listener threw.\<close>

definition EventLogger_log :: "jsval \<Rightarrow> jsval \<Rightarrow> (unit, 'z) promise" where
  "EventLogger_log message metadata =
     (\<lambda>w. case log message metadata (events w) of
        (None, L) \<Rightarrow> (Inr (), w\<lparr>events := L\<rparr>)
      | (Some e, L) \<Rightarrow> (Inl e, w\<lparr>events := L\<rparr>))"

definition record_action :: "action \<Rightarrow> 'z world_scheme \<Rightarrow> 'z world_scheme" where
  "record_action a w = w\<lparr>trace := trace w @ [a]\<rparr>"

subsection \<open>The pooled connection\<close>

text \<open>
  The instance: its URL, and the behaviour of the two libraries it drives.
  \<open>acquireAsync\<close> is what \<^verbatim>\<open>this.pool.acquireAsync()\<close> settles to, a client or an
  error; \<open>clientAsync f args\<close> is what the promisified client function \<open>f\<close> settles
  to on the arguments \<open>args\<close>.
\<close>

record pooledLdapConnection =
  ldapUrl :: string
  acquireAsync :: "jserror + nat"
  clientAsync :: "string \<Rightarrow> jsval list \<Rightarrow> jserror + jsval"

text \<open>
  The two functions the constructor attaches to a client:
  \<^verbatim>\<open>client.dispose = () => { this.remove(client); }\<close> and
  \<^verbatim>\<open>client.release = () => { EventLogger.log(...); this.release(client); }\<close>.
\<close>

definition client_dispose :: "nat \<Rightarrow> (unit, 'z) promise" where
  "client_dispose client = (\<lambda>w. (Inr (), record_action (PoolRemove client) w))"

definition client_release :: "pooledLdapConnection \<Rightarrow> nat \<Rightarrow> (unit, 'z) promise" where
  "client_release this client =
     p_then
       (EventLogger_log
          (JStr (''Releasing LDAP connection '' @ ldapUrl this @ '' back to the connection pool''))
          Undefined)
       (\<lambda>u w. (Inr (), record_action (PoolRelease client) w))"

text \<open>A call of a promisified function of the client.\<close>

definition client_call :: "pooledLdapConnection \<Rightarrow> nat \<Rightarrow> string \<Rightarrow> jsval list \<Rightarrow> (jsval, 'z) promise" where
  "client_call this client functionName args =
     (\<lambda>w. (clientAsync this functionName args, record_action (ClientCall client functionName args) w))"

text \<open>
  \<^verbatim>\<open>withConnection(callback, dispose=false)\<close>. The variable \<^verbatim>\<open>clientInstance\<close> is
  assigned in the \<^verbatim>\<open>.then\<close> handler only, so it is still \<^verbatim>\<open>undefined\<close> (\<open>None\<close>) in
  the \<^verbatim>\<open>.finally\<close> handler when the acquisition was rejected, and calling a method
  on it throws a \<^verbatim>\<open>TypeError\<close>.
\<close>

definition withConnection_finally :: "pooledLdapConnection \<Rightarrow> nat option \<Rightarrow> bool \<Rightarrow> (unit, 'z) promise" where
  "withConnection_finally this clientInstance dispose =
     (if dispose then
        (case clientInstance of
           None \<Rightarrow> rejected TypeError
         | Some client \<Rightarrow> client_dispose client)
      else
        p_then (EventLogger_log (JStr ''withConnection(...) Releasing LDAP connection'') Undefined)
          (\<lambda>u. case clientInstance of
                  None \<Rightarrow> rejected TypeError
                | Some client \<Rightarrow> client_release this client))"

definition withConnection ::
  "pooledLdapConnection \<Rightarrow> (nat \<Rightarrow> ('a, 'z) promise) \<Rightarrow> bool \<Rightarrow> ('a, 'z) promise" where
  "withConnection this callback dispose =
     (case acquireAsync this of
        Inl e \<Rightarrow> p_finally (rejected e) (withConnection_finally this None dispose)
      | Inr client \<Rightarrow> p_finally (callback client) (withConnection_finally this (Some client) dispose))"

text \<open>\<^verbatim>\<open>$performAsyncLdapOperation(functionName, ...args)\<close>.\<close>

definition performAsyncLdapOperation ::
  "pooledLdapConnection \<Rightarrow> string \<Rightarrow> jsval list \<Rightarrow> (jsval, 'z) promise" where
  "performAsyncLdapOperation this functionName args =
     withConnection this
       (\<lambda>client.
          let filteredArgs = filter (\<lambda>arg. arg \<noteq> Undefined) args
          in client_call this client functionName filteredArgs)
       False"

definition add :: "pooledLdapConnection \<Rightarrow> jsval \<Rightarrow> jsval \<Rightarrow> jsval \<Rightarrow> (jsval, 'z) promise" where
  "add this dn attributes controls =
     p_tap (performAsyncLdapOperation this ''addAsync'' [dn, attributes, controls])
       (\<lambda>v. EventLogger_log (JStr ''Added new entry to LDAP'')
               (JObject [(''attributes'', attributes), (''controls'', controls), (''dn'', dn),
                         (''url'', JStr (ldapUrl this))]))"

definition compare :: "pooledLdapConnection \<Rightarrow> jsval \<Rightarrow> jsval \<Rightarrow> jsval \<Rightarrow> jsval \<Rightarrow> (jsval, 'z) promise" where
  "compare this dn attribute val controls =
     performAsyncLdapOperation this ''compareAsync'' [dn, attribute, val, controls]"

definition delete :: "pooledLdapConnection \<Rightarrow> jsval \<Rightarrow> jsval \<Rightarrow> (jsval, 'z) promise" where
  "delete this dn controls =
     p_tap (performAsyncLdapOperation this ''delAsync'' [dn, controls])
       (\<lambda>v. EventLogger_log (JStr ''Deleted entry from LDAP'')
               (JObject [(''controls'', controls), (''dn'', dn), (''url'', JStr (ldapUrl this))]))"

definition modify :: "pooledLdapConnection \<Rightarrow> jsval \<Rightarrow> jsval \<Rightarrow> jsval \<Rightarrow> (jsval, 'z) promise" where
  "modify this dn changes controls =
     p_tap (performAsyncLdapOperation this ''modifyAsync'' [dn, changes, controls])
       (\<lambda>v. EventLogger_log (JStr ''Modified existing entry in LDAP'')
               (JObject [(''changes'', changes), (''controls'', controls), (''dn'', dn),
                         (''url'', JStr (ldapUrl this))]))"

text \<open>
  \<^verbatim>\<open>createLdapChange(operation, attributes)\<close> and \<^verbatim>\<open>modifySimple(dn, ...operations)\<close>.
  An operation is the array \<^verbatim>\<open>[operation, attributeName, value]\<close>; the object
  \<^verbatim>\<open>{[operation[1]]: operation[2]}\<close> has the one property. \<^verbatim>\<open>modify\<close> is called with
  two arguments, so its \<^verbatim>\<open>controls\<close> is \<^verbatim>\<open>undefined\<close>.
\<close>

definition createLdapChange :: "string \<Rightarrow> (string \<times> jsval) list \<Rightarrow> jsval" where
  "createLdapChange operation attributes = LdapChange operation attributes"

definition modifySimple ::
  "pooledLdapConnection \<Rightarrow> jsval \<Rightarrow> (string \<times> string \<times> jsval) list \<Rightarrow> (jsval, 'z) promise" where
  "modifySimple this dn operations =
     (let changes = map (\<lambda>(operation0, operation1, operation2).
                           createLdapChange operation0 [(operation1, operation2)]) operations
      in modify this dn (JArray changes) Undefined)"

text \<open>
  \<^verbatim>\<open>encodeCredential(credential, encodingType=null)\<close>. The encoding type is a value
  or a function; \<^verbatim>\<open>undefined\<close> takes the default \<^verbatim>\<open>null\<close>. A truthy value that is
  neither \<^verbatim>\<open>'msad'\<close> nor a function falls off the end of the function, which returns
  \<^verbatim>\<open>undefined\<close>. \<^verbatim>\<open>new Buffer(s, 'utf16le')\<close> writes each code unit low byte first.
\<close>

datatype encodingType = EncValue jsval | EncFunction "string \<Rightarrow> jsval"

fun truthy :: "jsval \<Rightarrow> bool" where
  "truthy Undefined = False"
| "truthy Null = False"
| "truthy (JBool b) = b"
| "truthy (JNum n) = (n \<noteq> 0)"
| "truthy (JStr s) = (s \<noteq> [])"
| "truthy (JBuffer bs) = True"
| "truthy (JArray xs) = True"
| "truthy (JObject ps) = True"
| "truthy (LdapChange operation modification) = True"

definition utf16le :: "string \<Rightarrow> nat list" where
  "utf16le s = concat (map (\<lambda>c. [of_char c, 0]) s)"

fun encodeCredential :: "string \<Rightarrow> encodingType \<Rightarrow> jsval" where
  "encodeCredential credential (EncValue v) =
     (if \<not> truthy (if v = Undefined then Null else v) then JStr credential
      else if v = JStr ''msad'' then JBuffer (utf16le ([CHR 0x22] @ credential @ [CHR 0x22]))
      else Undefined)"
| "encodeCredential credential (EncFunction encodingFn) = encodingFn credential"

text \<open>
  \<^verbatim>\<open>changeCredential(dn, credential, attributeName='userPassword', encodingType=null)\<close>;
  an attribute name that is not given (\<open>None\<close>) takes the default.
\<close>

definition changeCredential ::
  "pooledLdapConnection \<Rightarrow> jsval \<Rightarrow> string \<Rightarrow> string option \<Rightarrow> encodingType \<Rightarrow> (jsval, 'z) promise" where
  "changeCredential this dn credential attributeName encodingType =
     modifySimple this dn
       [(''replace'',
         (case attributeName of None \<Rightarrow> ''userPassword'' | Some n \<Rightarrow> n),
         encodeCredential credential encodingType)]"

text \<open>
  \<^verbatim>\<open>String.prototype.indexOf\<close>: the first position at which the search string starts,
  or \<open>-1\<close>.
\<close>

fun indexOf_from :: "int \<Rightarrow> string \<Rightarrow> string \<Rightarrow> int" where
  "indexOf_from k [] searchString = (if searchString = [] then k else -1)"
| "indexOf_from k (c # s) searchString =
     (if take (length searchString) (c # s) = searchString then k
      else indexOf_from (k + 1) s searchString)"

definition indexOf :: "string \<Rightarrow> string \<Rightarrow> int" where
  "indexOf s searchString = indexOf_from 0 s searchString"

text \<open>
  \<^verbatim>\<open>isCredentialFailedError(error)\<close>. A string is truthy when it is not empty, a
  number when it is not zero: the last test, \<^verbatim>\<open>if(error.lde_message.indexOf('DSID-0C0903D9'))\<close>,
  is on the number that \<^verbatim>\<open>indexOf\<close> returns.
\<close>

definition isCredentialFailedError :: "jserror \<Rightarrow> bool" where
  "isCredentialFailedError error =
     (if code error = Some 49 then True
      else
        (case lde_message error of
           None \<Rightarrow> False
         | Some m \<Rightarrow>
             if m \<noteq> [] then
               (if m = ''Invalid Credentials'' then True
                else if indexOf m ''DSID-0C0903D9'' \<noteq> 0 then True
                else False)
             else False))"



subsection \<open>The streaming search\<close>

text \<open>
  The promise that \<^verbatim>\<open>search\<close> returns is made with \<^verbatim>\<open>new Promise((resolve, reject) => ...)\<close>
  and is settled from event handlers, so the world of a search carries it: whether it
  is pending, fulfilled with the array \<^verbatim>\<open>results\<close>, or rejected; the content of that
  array; and which of the three handlers are attached to the search result
  (\<^verbatim>\<open>once\<close> detaches a handler when it has run). \<^verbatim>\<open>resolve(results)\<close> hands over the
  array itself, so the value of a fulfilled promise is the content of \<open>results\<close>.
\<close>

datatype settle = Pending | Fulfilled | Rejected jserror

record search_world = world +
  settled :: settle
  results :: "jsval list"
  errorHandler :: bool
  searchEntryHandler :: bool
  endHandler :: bool

definition resolve :: "search_world \<Rightarrow> search_world" where
  "resolve w = (if settled w = Pending then record_action SearchSettled (w\<lparr>settled := Fulfilled\<rparr>) else w)"

definition reject :: "jserror \<Rightarrow> search_world \<Rightarrow> search_world" where
  "reject e w = (if settled w = Pending then record_action SearchSettled (w\<lparr>settled := Rejected e\<rparr>) else w)"

definition search_value :: "search_world \<Rightarrow> jsval list option" where
  "search_value w = (case settled w of Fulfilled \<Rightarrow> Some (results w) | Pending \<Rightarrow> None | Rejected e \<Rightarrow> None)"

text \<open>
  The executor of \<^verbatim>\<open>search(baseDn, filter, attributes=[], scope='one')\<close>: it calls
  \<^verbatim>\<open>withConnection\<close> and drops the promise that call returns. The callback resolves
  as soon as the handlers are attached, or, through \<^verbatim>\<open>.catch(reject)\<close>, as soon as
  the rejection of \<^verbatim>\<open>searchAsync\<close> has been passed on.
\<close>

definition searchOptions :: "jsval \<Rightarrow> jsval \<Rightarrow> jsval \<Rightarrow> jsval" where
  "searchOptions filter_expr attributes scope =
     JObject [(''attributes'', (if attributes = Undefined then JArray [] else attributes)),
              (''filter'', filter_expr),
              (''scope'', (if scope = Undefined then JStr ''one'' else scope))]"

definition search_executor ::
  "pooledLdapConnection \<Rightarrow> jsval \<Rightarrow> jsval \<Rightarrow> jsval \<Rightarrow> jsval \<Rightarrow> search_world \<Rightarrow> search_world" where
  "search_executor this baseDn filter_expr attributes scope w =
     snd (withConnection this
            (\<lambda>client.
               p_catch
                 (p_then
                    (client_call this client ''searchAsync''
                       [baseDn, searchOptions filter_expr attributes scope])
                    (\<lambda>searchResult w'.
                       (Inr Undefined,
                        w'\<lparr>results := [], errorHandler := True,
                           searchEntryHandler := True, endHandler := True\<rparr>)))
                 (\<lambda>e w'. (Inr Undefined, reject e w')))
            False w)"

text \<open>
  What the search result emits afterwards, one event at a time: \<open>SearchEntry obj\<close> is
  a \<^verbatim>\<open>searchEntry\<close> event whose entry has \<^verbatim>\<open>entry.object\<close> equal to \<open>obj\<close>.
\<close>

datatype stream_event = SearchEntry jsval | StreamError jserror | StreamEnd

fun stream_emit :: "stream_event \<Rightarrow> search_world \<Rightarrow> search_world" where
  "stream_emit (SearchEntry obj) w =
     (if searchEntryHandler w then w\<lparr>results := results w @ [obj]\<rparr> else w)"
| "stream_emit (StreamError e) w =
     (if errorHandler w then reject e (w\<lparr>errorHandler := False\<rparr>)
      else record_action (UncaughtError e) w)"
| "stream_emit StreamEnd w =
     (if endHandler w then resolve (w\<lparr>endHandler := False\<rparr>) else w)"

definition new_search :: "logger \<Rightarrow> search_world" where
  "new_search L =
     \<lparr> events = L, trace = [], settled = Pending, results = [],
       errorHandler = False, searchEntryHandler = False, endHandler = False \<rparr>"

definition search ::
  "pooledLdapConnection \<Rightarrow> jsval \<Rightarrow> jsval \<Rightarrow> jsval \<Rightarrow> jsval \<Rightarrow> stream_event list \<Rightarrow> logger \<Rightarrow> search_world" where
  "search this baseDn filter_expr attributes scope stream L =
     fold stream_emit stream (search_executor this baseDn filter_expr attributes scope (new_search L))"

subsection \<open>What the properties are stated with\<close>

text \<open>
  The calls made on clients, among the actions of a trace. And the condition under
  which the release path of \<^verbatim>\<open>withConnection\<close> runs to
  its end: the two calls of \<^verbatim>\<open>EventLogger.log\<close> that precede \<^verbatim>\<open>pool.release\<close>, one in
  the \<^verbatim>\<open>.finally\<close> handler and one in \<^verbatim>\<open>client.release\<close>, return, that is, no log
  listener throws on either message.
\<close>

definition client_calls :: "action list \<Rightarrow> action list" where
  "client_calls tr =
     filter (\<lambda>a. case a of ClientCall client functionName args \<Rightarrow> True | _ \<Rightarrow> False) tr"

definition release_logs_return :: "pooledLdapConnection \<Rightarrow> logger \<Rightarrow> bool" where
  "release_logs_return this L =
     (fst (log (JStr ''withConnection(...) Releasing LDAP connection'') Undefined L) = None
      \<and> fst (log (JStr (''Releasing LDAP connection '' @ ldapUrl this @ '' back to the connection pool''))
               Undefined L) = None)"

text \<open>Instances for the concrete checks: a connection and a world with an empty trace.\<close>

definition sample_connection ::
  "(jserror + nat) \<Rightarrow> (string \<Rightarrow> jsval list \<Rightarrow> jserror + jsval) \<Rightarrow> pooledLdapConnection" where
  "sample_connection acquired server =
     \<lparr> ldapUrl = ''ldap://directory'', acquireAsync = acquired, clientAsync = server \<rparr>"

definition world_with :: "logger \<Rightarrow> world" where
  "world_with L = \<lparr> events = L, trace = [] \<rparr>"

text \<open>A listener that throws on the events with the given message and returns on all others.\<close>

definition throws_on :: "string \<Rightarrow> listenerFn" where
  "throws_on m = (\<lambda>args. if take 1 args = [JStr m] then Some (ErrorObject None None) else None)"

section \<open>Properties of the event logger\<close>

lemma log_eventBuffer: "eventBuffer (snd (log message metadata L)) = eventBuffer L"
  by (simp add: log_def emit_orig_def split: prod.splits option.splits)

lemma log_listeners: "listeners (snd (log message metadata L)) = listeners L"
  by (simp add: log_def emit_orig_def split: prod.splits option.splits)

lemma log_fold_eventBuffer:
  "eventBuffer (fold (\<lambda>k L. snd (log (message k) (metadata k) L)) ks L) = eventBuffer L"
  by (induction ks arbitrary: L) (simp_all add: log_eventBuffer)

lemma emit_log_buffered:
  "eventBuffer (snd (emit ''log'' args L)) =
     (if listeners L ''log'' = []
      then (if length (eventBuffer L) > 99 then tl (eventBuffer L) else eventBuffer L) @ [args]
      else eventBuffer L)"
  by (simp add: emit_def emit_orig_def listenerCount_def Let_def split: prod.splits option.splits)

lemma emit_listeners: "listeners (snd (emit eventName args L)) = listeners L"
  by (simp add: emit_def emit_orig_def listenerCount_def Let_def split: prod.splits option.splits)

text \<open>
  The overridden \<^verbatim>\<open>emit\<close>, with no listener of \<^verbatim>\<open>log\<close>: after any sequence of
  emissions the buffer holds the last 100 of what it held and what was emitted, oldest
  first.
\<close>

lemma emit_fold_buffer:
  "listeners L ''log'' = [] \<Longrightarrow> length (eventBuffer L) \<le> 100 \<Longrightarrow>
   eventBuffer (fold (\<lambda>args L. snd (emit ''log'' args L)) es L) =
     drop (length (eventBuffer L @ es) - 100) (eventBuffer L @ es)"
proof (induction es arbitrary: L)
  case Nil
  then show ?case by simp
next
  case (Cons a es)
  let ?L = "snd (emit ''log'' a L)"
  have l: "listeners ?L ''log'' = []"
    using Cons.prems by (simp add: emit_listeners)
  have b: "eventBuffer ?L =
      (if length (eventBuffer L) > 99 then tl (eventBuffer L) else eventBuffer L) @ [a]"
    using Cons.prems by (simp add: emit_log_buffered)
  have len: "length (eventBuffer ?L) \<le> 100"
    using Cons.prems b by auto
  have "eventBuffer (fold (\<lambda>args L. snd (emit ''log'' args L)) (a # es) L)
        = drop (length (eventBuffer ?L @ es) - 100) (eventBuffer ?L @ es)"
    using Cons.IH[OF l len] by simp
  also have "\<dots> = drop (length (eventBuffer L @ a # es) - 100) (eventBuffer L @ a # es)"
  proof (cases "length (eventBuffer L) > 99")
    case True
    then have e: "length (eventBuffer L) = 100"
      using Cons.prems by simp
    then obtain x xs where xs: "eventBuffer L = x # xs"
      by (cases "eventBuffer L") auto
    with e b True show ?thesis by simp
  next
    case False
    with b show ?thesis by simp
  qed
  finally show ?case .
qed

lemma drain_returns:
  "\<forall>item \<in> set buf. f item = None \<Longrightarrow> drain i f buf rcv = ([], rcv @ map (Pair i) buf, None)"
  by (induction buf arbitrary: rcv) simp_all


lemma drain_done:
  "drain i f buf rcv = (buf', rcv', None) \<Longrightarrow> buf' = [] \<and> rcv' = rcv @ map (Pair i) buf"
proof (induction buf arbitrary: rcv)
  case Nil
  then show ?case by simp
next
  case (Cons item buf)
  show ?case
  proof (cases "f item")
    case None
    with Cons.prems have "drain i f buf (rcv @ [(i, item)]) = (buf', rcv', None)"
      by simp
    from Cons.IH[OF this] show ?thesis by simp
  next
    case (Some e)
    with Cons.prems show ?thesis by simp
  qed
qed

lemma call_listeners_delivers:
  "\<forall>(j, g) \<in> set ls. g args = None \<Longrightarrow>
   call_listeners ls args rcv = (rcv @ map (\<lambda>(j, g). (j, args)) ls, None)"
  by (induction ls arbitrary: rcv) auto

lemma on_log_replays:
  assumes "\<forall>item \<in> set (eventBuffer L). f item = None"
  shows "on ''log'' i f L =
           (None, L\<lparr>eventBuffer := [],
                    received := received L @ map (Pair i) (eventBuffer L),
                    listeners := (listeners L)(''log'' := listeners L ''log'' @ [(i, f)])\<rparr>)"
  using assms by (cases "eventBuffer L") (simp_all add: on_def newListener_def drain_returns)

lemma log_fold_no_listeners:
  "listeners L ''log'' = [] \<Longrightarrow> fold (\<lambda>k L. snd (log (message k) (metadata k) L)) ks L = L"
  by (induction ks arbitrary: L) (simp_all add: log_def emit_orig_def)

lemma emit_fold_received:
  "listeners L ''log'' = [] \<Longrightarrow>
   received (fold (\<lambda>args L. snd (emit ''log'' args L)) es L) = received L"
proof (induction es arbitrary: L)
  case Nil
  then show ?case by simp
next
  case (Cons a es)
  have "listeners (snd (emit ''log'' a L)) ''log'' = []"
    using Cons.prems by (simp add: emit_listeners)
  moreover have "received (snd (emit ''log'' a L)) = received L"
    using Cons.prems by (simp add: emit_def listenerCount_def Let_def)
  ultimately show ?case
    using Cons.IH[of "snd (emit ''log'' a L)"] by simp
qed

text \<open>
  Claim C2. With no subscriber every log emission should go to the buffer, which keeps
  the most recent 100, and the first subscriber should be replayed them. The helper
  \<^verbatim>\<open>log\<close> calls the saved \<^verbatim>\<open>_emit\<close> and not the overridden \<^verbatim>\<open>emit\<close>: 150 calls of
  \<^verbatim>\<open>log\<close> on a fresh logger leave the buffer empty, and a subscriber registered
  afterwards receives nothing. The same 150 events sent through \<^verbatim>\<open>emit('log', ...)\<close>
  leave the events 50 to 149 in the buffer, oldest first, and the subscriber registered
  afterwards receives exactly these, in that order, and leaves the buffer empty.
\<close>

theorem log_helper_bypasses_buffer:
  "bufferSize (fold (\<lambda>k L. snd (log (JStr ''event'') (JNum (int k)) L)) [0..<150] new_EventLogger) = 0
   \<and> received (snd (on ''log'' 1 (\<lambda>args. None)
         (fold (\<lambda>k L. snd (log (JStr ''event'') (JNum (int k)) L)) [0..<150] new_EventLogger))) = []
   \<and> eventBuffer (fold (\<lambda>k L. snd (emit ''log'' [JStr ''event'', JNum (int k)] L)) [0..<150] new_EventLogger)
       = map (\<lambda>k. [JStr ''event'', JNum (int k)]) [50..<150]
   \<and> received (snd (on ''log'' 1 (\<lambda>args. None)
         (fold (\<lambda>k L. snd (emit ''log'' [JStr ''event'', JNum (int k)] L)) [0..<150] new_EventLogger)))
       = map (\<lambda>k. (1, [JStr ''event'', JNum (int k)])) [50..<150]
   \<and> eventBuffer (snd (on ''log'' 1 (\<lambda>args. None)
         (fold (\<lambda>k L. snd (emit ''log'' [JStr ''event'', JNum (int k)] L)) [0..<150] new_EventLogger)))
       = []"
proof -
  let ?logged = "fold (\<lambda>k L. snd (log (JStr ''event'') (JNum (int k)) L)) [0..<150] new_EventLogger"
  let ?emitted = "fold (\<lambda>k L. snd (emit ''log'' [JStr ''event'', JNum (int k)] L)) [0..<150] new_EventLogger"
  have a: "bufferSize ?logged = 0"
    by (simp add: bufferSize_def log_fold_eventBuffer new_EventLogger_def)
  have b: "received (snd (on ''log'' 1 (\<lambda>args. None) ?logged)) = []"
    by (simp add: log_fold_no_listeners new_EventLogger_def on_def newListener_def)
  have f: "?emitted = fold (\<lambda>args L. snd (emit ''log'' args L))
          (map (\<lambda>k. [JStr ''event'', JNum (int k)]) [0..<150]) new_EventLogger"
    by (simp add: fold_map comp_def)
  have c: "eventBuffer ?emitted = map (\<lambda>k. [JStr ''event'', JNum (int k)]) [50..<150]"
    apply (simp only: f)
    apply (subst emit_fold_buffer)
      apply (simp_all add: new_EventLogger_def drop_map)
    done
  have r: "received ?emitted = []"
    apply (simp only: f)
    apply (subst emit_fold_received)
     apply (simp_all add: new_EventLogger_def)
    done
  have o: "on ''log'' 1 (\<lambda>args. None) ?emitted =
           (None, ?emitted\<lparr>eventBuffer := [],
                    received := received ?emitted @ map (Pair 1) (eventBuffer ?emitted),
                    listeners := (listeners ?emitted)(''log'' := listeners ?emitted ''log'' @ [(1, \<lambda>args. None)])\<rparr>)"
    by (rule on_log_replays) simp
  have d: "received (snd (on ''log'' 1 (\<lambda>args. None) ?emitted))
       = map (\<lambda>k. (1, [JStr ''event'', JNum (int k)])) [50..<150]"
    by (simp only: o) (simp add: r c comp_def)
  have e: "eventBuffer (snd (on ''log'' 1 (\<lambda>args. None) ?emitted)) = []"
    by (simp only: o) simp
  from a b c d e show ?thesis by blast
qed

text \<open>
  Claim C8, as stated, fails: the override of \<^verbatim>\<open>emit\<close> looks at the number of
  listeners at the moment of the emission, and keeps no state that says a subscriber
  was ever there. After the only subscriber has been removed, an emitted event is in
  the buffer again.
\<close>

theorem buffering_resumes_counterexample:
  "eventBuffer (snd (emit ''log'' [JStr ''late'']
      (removeListener ''log'' 0 (snd (on ''log'' 0 (\<lambda>args. None) new_EventLogger)))))
   = [[JStr ''late'']]"
  by (simp add: emit_def on_def newListener_def removeListener_def new_EventLogger_def
      listenerCount_def)

text \<open>
  Claim C8, amended. An event emitted with \<^verbatim>\<open>emit('log', ...)\<close> is buffered exactly
  when no listener of \<^verbatim>\<open>log\<close> is registered at that moment, and otherwise leaves the
  buffer as it is: with a listener registered, the emission is the plain delivery to
  the listeners, each of which receives the event when they all return. A registration
  of a \<^verbatim>\<open>log\<close> listener that returns hands the listener every buffered event once,
  oldest first, leaves the buffer empty and appends the listener to the registered
  ones. So events are not buffered while a subscriber is registered, and are buffered
  again once none is.
\<close>

theorem emit_buffers_iff_no_listener:
  "eventBuffer (snd (emit ''log'' args L)) =
     (if listenerCount L ''log'' = 0
      then (if length (eventBuffer L) > 99 then tl (eventBuffer L) else eventBuffer L) @ [args]
      else eventBuffer L)
   \<and> (listenerCount L ''log'' > 0 \<longrightarrow> emit ''log'' args L = emit_orig ''log'' args L)
   \<and> (listenerCount L ''log'' > 0 \<and> (\<forall>(j, g) \<in> set (listeners L ''log''). g args = None) \<longrightarrow>
        received (snd (emit ''log'' args L)) =
          received L @ map (\<lambda>(j, g). (j, args)) (listeners L ''log''))
   \<and> (fst (on ''log'' i f L) = None \<longrightarrow>
        eventBuffer (snd (on ''log'' i f L)) = []
        \<and> received (snd (on ''log'' i f L)) = received L @ map (Pair i) (eventBuffer L)
        \<and> listeners (snd (on ''log'' i f L)) ''log'' = listeners L ''log'' @ [(i, f)]
        \<and> listenerCount (snd (on ''log'' i f L)) ''log'' > 0)"
proof -
  have a: "eventBuffer (snd (on ''log'' i f L)) = []
        \<and> received (snd (on ''log'' i f L)) = received L @ map (Pair i) (eventBuffer L)
        \<and> listeners (snd (on ''log'' i f L)) ''log'' = listeners L ''log'' @ [(i, f)]
        \<and> listenerCount (snd (on ''log'' i f L)) ''log'' > 0"
    if "fst (on ''log'' i f L) = None"
  proof (cases "eventBuffer L")
    case Nil
    then show ?thesis
      by (simp add: on_def newListener_def listenerCount_def)
  next
    case (Cons item buf)
    obtain buf' rcv' r where d: "drain i f (eventBuffer L) (received L) = (buf', rcv', r)"
      by (cases "drain i f (eventBuffer L) (received L)")
    with that Cons have r: "r = None"
      by (cases r) (simp_all add: on_def newListener_def)
    from drain_done[OF d[unfolded r]] have "buf' = []" "rcv' = received L @ map (Pair i) (eventBuffer L)"
      by simp_all
    with d r Cons show ?thesis
      by (simp add: on_def newListener_def listenerCount_def)
  qed
  have b: "emit ''log'' args L = emit_orig ''log'' args L" if "listenerCount L ''log'' > 0"
    using that by (simp add: emit_def)
  have c: "received (snd (emit ''log'' args L)) =
          received L @ map (\<lambda>(j, g). (j, args)) (listeners L ''log'')"
    if "listenerCount L ''log'' > 0" "\<forall>(j, g) \<in> set (listeners L ''log''). g args = None"
    using that call_listeners_delivers[of "listeners L ''log''" args "received L"]
    by (simp add: emit_def emit_orig_def)
  from a b c show ?thesis
    by (simp add: emit_log_buffered listenerCount_def)
qed

theorem emit_buffers_iff_no_listener_witness:
  "eventBuffer (snd (emit ''log'' [JStr ''b''] (snd (emit ''log'' [JStr ''a''] new_EventLogger))))
     = [[JStr ''a''], [JStr ''b'']]
   \<and> fst (on ''log'' 0 (\<lambda>args. None)
        (snd (emit ''log'' [JStr ''b''] (snd (emit ''log'' [JStr ''a''] new_EventLogger))))) = None
   \<and> eventBuffer (snd (on ''log'' 0 (\<lambda>args. None)
        (snd (emit ''log'' [JStr ''b''] (snd (emit ''log'' [JStr ''a''] new_EventLogger)))))) = []
   \<and> received (snd (on ''log'' 0 (\<lambda>args. None)
        (snd (emit ''log'' [JStr ''b''] (snd (emit ''log'' [JStr ''a''] new_EventLogger))))))
     = [(0, [JStr ''a'']), (0, [JStr ''b''])]
   \<and> received (snd (emit ''log'' [JStr ''c'']
        (snd (on ''log'' 0 (\<lambda>args. None) (snd (emit ''log'' [JStr ''a''] new_EventLogger))))))
     = [(0, [JStr ''a'']), (0, [JStr ''c''])]
   \<and> eventBuffer (snd (emit ''log'' [JStr ''c'']
        (snd (on ''log'' 0 (\<lambda>args. None) (snd (emit ''log'' [JStr ''a''] new_EventLogger))))))
     = []"
  using emit_buffers_iff_no_listener
      [of "[JStr ''b'']" "snd (emit ''log'' [JStr ''a''] new_EventLogger)" 0 "\<lambda>args. None"]
    emit_buffers_iff_no_listener
      [of "[JStr ''c'']" "snd (emit ''log'' [JStr ''b''] (snd (emit ''log'' [JStr ''a''] new_EventLogger)))"
        0 "\<lambda>args. None"]
    emit_buffers_iff_no_listener
      [of "[JStr ''c'']" "snd (on ''log'' 0 (\<lambda>args. None) (snd (emit ''log'' [JStr ''a''] new_EventLogger)))"
        0 "\<lambda>args. None"]
  by (simp add: emit_def emit_orig_def on_def newListener_def new_EventLogger_def listenerCount_def)

section \<open>Properties of the pooled connection\<close>

lemmas promise_defs = resolved_def rejected_def p_then_def p_catch_def p_finally_def p_tap_def

subsection \<open>Logging and the release path\<close>

text \<open>Whether a call of \<^verbatim>\<open>log\<close> throws depends on the listeners only.\<close>

lemma call_listeners_outcome:
  "snd (call_listeners ls args rcv) = snd (call_listeners ls args rcv')"
  by (induction ls arbitrary: rcv rcv') (auto split: option.splits)

lemma log_outcome:
  "listeners L' ''log'' = listeners L ''log'' \<Longrightarrow> fst (log m d L') = fst (log m d L)"
  using call_listeners_outcome[of "listeners L ''log''" "[m, d]" "received L'" "received L"]
  by (auto simp: log_def emit_orig_def split: prod.splits option.splits)

lemma EventLogger_log_eq:
  "EventLogger_log m d w =
     ((case fst (log m d (events w)) of None \<Rightarrow> Inr () | Some e \<Rightarrow> Inl e),
      w\<lparr>events := snd (log m d (events w))\<rparr>)"
  by (simp add: EventLogger_log_def split: prod.splits option.splits)

lemma withConnection_finally_released:
  assumes "release_logs_return this (events w)"
  shows "\<exists>E. listeners E = listeners (events w) \<and>
             withConnection_finally this (Some client) False w =
               (Inr (), w\<lparr>events := E, trace := trace w @ [PoolRelease client]\<rparr>)"
proof -
  let ?m1 = "JStr ''withConnection(...) Releasing LDAP connection''"
  let ?m2 = "JStr (''Releasing LDAP connection '' @ ldapUrl this @ '' back to the connection pool'')"
  let ?L1 = "snd (log ?m1 Undefined (events w))"
  let ?L2 = "snd (log ?m2 Undefined ?L1)"
  have f1: "fst (log ?m1 Undefined (events w)) = None"
    using assms by (simp add: release_logs_return_def)
  have "fst (log ?m2 Undefined ?L1) = fst (log ?m2 Undefined (events w))"
    by (rule log_outcome) (simp add: log_listeners)
  then have f2: "fst (log ?m2 Undefined ?L1) = None"
    using assms by (simp add: release_logs_return_def)
  have "withConnection_finally this (Some client) False w =
          (Inr (), w\<lparr>events := ?L2, trace := trace w @ [PoolRelease client]\<rparr>)"
    using f1 f2
    by (simp add: withConnection_finally_def client_release_def promise_defs EventLogger_log_eq
        record_action_def)
  moreover have "listeners ?L2 = listeners (events w)"
    by (simp add: log_listeners)
  ultimately show ?thesis by blast
qed

lemma withConnection_finally_not_released:
  assumes "\<not> release_logs_return this (events w)"
  shows "\<exists>e E. withConnection_finally this (Some client) False w = (Inl e, w\<lparr>events := E\<rparr>)"
proof -
  let ?m1 = "JStr ''withConnection(...) Releasing LDAP connection''"
  let ?m2 = "JStr (''Releasing LDAP connection '' @ ldapUrl this @ '' back to the connection pool'')"
  let ?L1 = "snd (log ?m1 Undefined (events w))"
  have o: "fst (log ?m2 Undefined ?L1) = fst (log ?m2 Undefined (events w))"
    by (rule log_outcome) (simp add: log_listeners)
  show ?thesis
  proof (cases "fst (log ?m1 Undefined (events w))")
    case (Some e)
    then have "withConnection_finally this (Some client) False w = (Inl e, w\<lparr>events := ?L1\<rparr>)"
      by (simp add: withConnection_finally_def promise_defs EventLogger_log_eq)
    then show ?thesis by blast
  next
    case None
    with assms obtain e where "fst (log ?m2 Undefined (events w)) = Some e"
      by (auto simp: release_logs_return_def)
    with o None have "withConnection_finally this (Some client) False w =
        (Inl e, w\<lparr>events := snd (log ?m2 Undefined ?L1)\<rparr>)"
      by (simp add: withConnection_finally_def client_release_def promise_defs EventLogger_log_eq)
    then show ?thesis by blast
  qed
qed

lemma withConnection_dispose:
  "acquireAsync this = Inr client \<Longrightarrow> callback client w = (r, w') \<Longrightarrow>
   withConnection this callback True w = (r, record_action (PoolRemove client) w')"
  by (simp add: withConnection_def withConnection_finally_def client_dispose_def promise_defs)

lemma withConnection_released:
  assumes "acquireAsync this = Inr client" and "callback client w = (r, w')"
    and "release_logs_return this (events w')"
  shows "\<exists>E. listeners E = listeners (events w') \<and>
             withConnection this callback False w =
               (r, w'\<lparr>events := E, trace := trace w' @ [PoolRelease client]\<rparr>)"
proof -
  from withConnection_finally_released[OF assms(3), of client]
  obtain E where E: "listeners E = listeners (events w')"
    "withConnection_finally this (Some client) False w' =
       (Inr (), w'\<lparr>events := E, trace := trace w' @ [PoolRelease client]\<rparr>)"
    by blast
  have "withConnection this callback False w =
          (r, w'\<lparr>events := E, trace := trace w' @ [PoolRelease client]\<rparr>)"
    using assms(1,2) E(2) by (simp add: withConnection_def p_finally_def)
  with E(1) show ?thesis by blast
qed

lemma withConnection_not_released:
  assumes "acquireAsync this = Inr client" and "callback client w = (r, w')"
    and "\<not> release_logs_return this (events w')"
  shows "\<exists>e E. withConnection this callback False w = (Inl e, w'\<lparr>events := E\<rparr>)"
proof -
  from withConnection_finally_not_released[OF assms(3), of client]
  obtain e E where "withConnection_finally this (Some client) False w' = (Inl e, w'\<lparr>events := E\<rparr>)"
    by blast
  then have "withConnection this callback False w = (Inl e, w'\<lparr>events := E\<rparr>)"
    using assms(1,2) by (simp add: withConnection_def p_finally_def)
  then show ?thesis by blast
qed

subsection \<open>withConnection\<close>

text \<open>
  What \<^verbatim>\<open>withConnection\<close> does with any callback. On an acquired connection, with
  \<^verbatim>\<open>dispose\<close> true it hands on the outcome \<open>r\<close> of the callback and adds one
  \<^verbatim>\<open>pool.remove\<close>; with \<^verbatim>\<open>dispose\<close> false it adds one \<^verbatim>\<open>pool.release\<close> when the two log
  calls that precede the release return, and nothing when one of them throws. When the
  acquisition is rejected it calls neither.
\<close>

lemma withConnection_cleanup:
  "(acquireAsync this = Inr client \<longrightarrow> callback client w = (r, w') \<longrightarrow>
      withConnection this callback True w = (r, record_action (PoolRemove client) w')
      \<and> trace (snd (withConnection this callback False w)) =
          trace w' @ (if release_logs_return this (events w') then [PoolRelease client] else [])
      \<and> (release_logs_return this (events w') \<longrightarrow> fst (withConnection this callback False w) = r))
   \<and> (acquireAsync this = Inl e \<longrightarrow> trace (snd (withConnection this callback dispose w)) = trace w)"
proof -
  have a: "withConnection this callback True w = (r, record_action (PoolRemove client) w')"
    if "acquireAsync this = Inr client" "callback client w = (r, w')"
    using that by (rule withConnection_dispose)
  have b: "fst (withConnection this callback False w) = r
         \<and> trace (snd (withConnection this callback False w)) = trace w' @ [PoolRelease client]"
    if "acquireAsync this = Inr client" "callback client w = (r, w')"
      "release_logs_return this (events w')"
    using withConnection_released[of this client callback w r w'] that by auto
  have b': "trace (snd (withConnection this callback False w)) = trace w'"
    if "acquireAsync this = Inr client" "callback client w = (r, w')"
      "\<not> release_logs_return this (events w')"
    using withConnection_not_released[of this client callback w r w'] that by auto
  have c: "trace (snd (withConnection this callback dispose w)) = trace w"
    if "acquireAsync this = Inl e"
    using that
    by (auto simp: withConnection_def withConnection_finally_def promise_defs EventLogger_log_def
        split: prod.splits sum.splits option.splits)
  from a b b' c show ?thesis by auto
qed

text \<open>
  Claim C1. On every exit path \<^verbatim>\<open>withConnection\<close> should release the acquired
  connection, or dispose it when asked to, exactly once. With \<^verbatim>\<open>dispose\<close> false the
  release comes after two calls of \<^verbatim>\<open>EventLogger.log\<close>, one in the \<^verbatim>\<open>.finally\<close>
  handler and one in \<^verbatim>\<open>client.release\<close>: in the first run below the operation
  resolves, a log listener throws, the promise is rejected with what the listener
  threw, and \<^verbatim>\<open>pool.release\<close> is never called. The same run with \<^verbatim>\<open>dispose\<close> true,
  where no log call precedes the cleanup, hands on the outcome and disposes the
  connection once. And when the acquisition itself is rejected, the \<^verbatim>\<open>.finally\<close>
  handler calls a method on \<^verbatim>\<open>undefined\<close>: with either flag the promise is rejected
  with a \<^verbatim>\<open>TypeError\<close> in place of the error of the acquisition.
\<close>

theorem withConnection_release_skipped:
  "fst (withConnection (sample_connection (Inr 7) (\<lambda>f args. Inr Undefined))
          (\<lambda>client. resolved Undefined) False
          (world_with (snd (on ''log'' 0 (\<lambda>args. Some (ErrorObject None None)) new_EventLogger))))
     = Inl (ErrorObject None None)
   \<and> trace (snd (withConnection (sample_connection (Inr 7) (\<lambda>f args. Inr Undefined))
          (\<lambda>client. resolved Undefined) False
          (world_with (snd (on ''log'' 0 (\<lambda>args. Some (ErrorObject None None)) new_EventLogger)))))
     = []
   \<and> fst (withConnection (sample_connection (Inr 7) (\<lambda>f args. Inr Undefined))
          (\<lambda>client. resolved Undefined) True
          (world_with (snd (on ''log'' 0 (\<lambda>args. Some (ErrorObject None None)) new_EventLogger))))
     = Inr Undefined
   \<and> trace (snd (withConnection (sample_connection (Inr 7) (\<lambda>f args. Inr Undefined))
          (\<lambda>client. resolved Undefined) True
          (world_with (snd (on ''log'' 0 (\<lambda>args. Some (ErrorObject None None)) new_EventLogger)))))
     = [PoolRemove 7]
   \<and> withConnection (sample_connection (Inl (ErrorObject (Some 51) None)) (\<lambda>f args. Inr Undefined))
          (\<lambda>client. resolved Undefined) False (world_with new_EventLogger)
     = (Inl TypeError, world_with new_EventLogger)
   \<and> withConnection (sample_connection (Inl (ErrorObject (Some 51) None)) (\<lambda>f args. Inr Undefined))
          (\<lambda>client. resolved Undefined) True (world_with new_EventLogger)
     = (Inl TypeError, world_with new_EventLogger)"
  by (simp add: withConnection_def withConnection_finally_def client_release_def client_dispose_def
      promise_defs EventLogger_log_def log_def emit_orig_def sample_connection_def world_with_def
      new_EventLogger_def on_def newListener_def record_action_def)

subsection \<open>The dispatcher and changeCredential\<close>

lemma client_calls_append [simp]: "client_calls (xs @ ys) = client_calls xs @ client_calls ys"
  by (simp add: client_calls_def)

lemma withConnection_finally_client_calls:
  "client_calls (trace (snd (withConnection_finally this clientInstance dispose w))) = client_calls (trace w)"
  by (auto simp: withConnection_finally_def client_release_def client_dispose_def promise_defs
      EventLogger_log_def record_action_def client_calls_def
      split: prod.splits option.splits sum.splits)

lemma p_finally_client_calls:
  assumes "\<And>w. client_calls (trace (snd (h w))) = client_calls (trace w)"
  shows "client_calls (trace (snd (p_finally p h w))) = client_calls (trace (snd (p w)))"
  using assms[of "snd (p w)"]
  by (auto simp: p_finally_def split: prod.splits sum.splits)

lemma p_tap_log_client_calls:
  "client_calls (trace (snd (p_tap p (\<lambda>v. EventLogger_log m d) w))) = client_calls (trace (snd (p w)))"
  by (auto simp: p_tap_def EventLogger_log_def split: prod.splits sum.splits option.splits)

lemma performAsyncLdapOperation_client_calls:
  "acquireAsync this = Inr client \<Longrightarrow>
   client_calls (trace (snd (performAsyncLdapOperation this functionName args w))) =
     client_calls (trace w) @ [ClientCall client functionName (filter (\<lambda>arg. arg \<noteq> Undefined) args)]"
  by (simp add: performAsyncLdapOperation_def withConnection_def p_finally_client_calls
      withConnection_finally_client_calls client_call_def record_action_def Let_def)
     (simp add: client_calls_def)

text \<open>
  Claim C10. The dispatcher calls the named client function once, on the arguments
  that are not \<^verbatim>\<open>undefined\<close>, wherever the \<^verbatim>\<open>undefined\<close> ones stood: with an
  \<^verbatim>\<open>undefined\<close> argument between defined ones, every later argument is passed one
  position to the left of where it was given.
\<close>

theorem performAsyncLdapOperation_filters_undefined:
  "(acquireAsync this = Inr client \<longrightarrow>
     client_calls (trace (snd (performAsyncLdapOperation this functionName args w))) =
       client_calls (trace w) @ [ClientCall client functionName (filter (\<lambda>arg. arg \<noteq> Undefined) args)])
   \<and> (Undefined \<notin> set pre \<and> Undefined \<notin> set post \<longrightarrow>
        filter (\<lambda>arg. arg \<noteq> Undefined) (pre @ [Undefined] @ post) = pre @ post
        \<and> (\<forall>k < length post.
              filter (\<lambda>arg. arg \<noteq> Undefined) (pre @ [Undefined] @ post) ! (length pre + k)
                = (pre @ [Undefined] @ post) ! (length pre + k + 1)))"
proof -
  have f: "filter (\<lambda>arg. arg \<noteq> Undefined) xs = xs" if "Undefined \<notin> set xs" for xs :: "jsval list"
    using that by (induction xs) auto
  show ?thesis
    by (auto simp: performAsyncLdapOperation_client_calls f nth_append)
qed

theorem performAsyncLdapOperation_filters_undefined_witness:
  "client_calls (trace (snd (performAsyncLdapOperation
       (sample_connection (Inr 3) (\<lambda>f args. Inr (JBool True))) ''compareAsync''
       [JStr ''cn=a'', Undefined, JStr ''v'', Undefined] (world_with new_EventLogger))))
     = [ClientCall 3 ''compareAsync'' [JStr ''cn=a'', JStr ''v'']]"
  using performAsyncLdapOperation_filters_undefined
    [of "sample_connection (Inr 3) (\<lambda>f args. Inr (JBool True))" 3 "''compareAsync''"
        "[JStr ''cn=a'', Undefined, JStr ''v'', Undefined]" "world_with new_EventLogger" "[]" "[]"]
  by (simp add: sample_connection_def world_with_def client_calls_def)

text \<open>
  Claim C9. \<^verbatim>\<open>changeCredential\<close> is one \<^verbatim>\<open>modify\<close> of the entry with a single change,
  a \<^verbatim>\<open>replace\<close> of the attribute (\<^verbatim>\<open>userPassword\<close> when none is named) by the encoded
  credential, and on an acquired connection the one client call made is
  \<^verbatim>\<open>modifyAsync\<close> with the entry and that change. The encoded credential is: what an
  encoding function returns on the raw credential, as it is; the raw credential when
  the encoding type is falsy (not given, \<^verbatim>\<open>null\<close>, empty); for \<^verbatim>\<open>'msad'\<close> the buffer
  of the credential between double quotes, two bytes for each code unit, low byte
  first; and \<^verbatim>\<open>undefined\<close> for any other value.
\<close>

theorem changeCredential_single_replace:
  "changeCredential this dn credential attributeName encodingType w =
     modify this dn
       (JArray [LdapChange ''replace''
                  [(case attributeName of None \<Rightarrow> ''userPassword'' | Some n \<Rightarrow> n,
                    encodeCredential credential encodingType)]])
       Undefined w
   \<and> encodeCredential credential (EncFunction encodingFn) = encodingFn credential
   \<and> (acquireAsync this = Inr client \<longrightarrow>
        client_calls (trace (snd (changeCredential this dn credential attributeName encodingType w))) =
          client_calls (trace w) @
            [ClientCall client ''modifyAsync''
               (filter (\<lambda>arg. arg \<noteq> Undefined)
                 [dn, JArray [LdapChange ''replace''
                    [(case attributeName of None \<Rightarrow> ''userPassword'' | Some n \<Rightarrow> n,
                      encodeCredential credential encodingType)]]])])
   \<and> (\<not> truthy v \<longrightarrow> encodeCredential credential (EncValue v) = JStr credential)
   \<and> encodeCredential credential (EncValue (JStr ''msad'')) =
        JBuffer (concat (map (\<lambda>c. [of_char c, 0]) ([CHR 0x22] @ credential @ [CHR 0x22])))
   \<and> (truthy v \<and> v \<noteq> JStr ''msad'' \<longrightarrow> encodeCredential credential (EncValue v) = Undefined)"
proof -
  have "\<not> truthy v \<Longrightarrow> encodeCredential credential (EncValue v) = JStr credential"
    by (cases v) simp_all
  moreover have "encodeCredential credential (EncValue (JStr ''msad'')) =
        JBuffer (concat (map (\<lambda>c. [of_char c, 0]) ([CHR 0x22] @ credential @ [CHR 0x22])))"
    by (simp add: utf16le_def)
  moreover have "truthy v \<Longrightarrow> v \<noteq> JStr ''msad'' \<Longrightarrow> encodeCredential credential (EncValue v) = Undefined"
    by (cases v) simp_all
  ultimately show ?thesis
    by (simp add: changeCredential_def modifySimple_def createLdapChange_def modify_def Let_def
        p_tap_log_client_calls performAsyncLdapOperation_client_calls)
qed

theorem changeCredential_single_replace_witness:
  "client_calls (trace (snd (changeCredential (sample_connection (Inr 3) (\<lambda>f args. Inr Undefined))
      (JStr ''cn=u'') ''pw'' None (EncFunction (\<lambda>c. JStr (c @ ''!''))) (world_with new_EventLogger))))
   = [ClientCall 3 ''modifyAsync''
        [JStr ''cn=u'', JArray [LdapChange ''replace'' [(''userPassword'', JStr ''pw!'')]]]]
   \<and> client_calls (trace (snd (changeCredential (sample_connection (Inr 3) (\<lambda>f args. Inr Undefined))
      (JStr ''cn=u'') ''pw'' (Some ''unicodePwd'') (EncValue (JStr ''msad'')) (world_with new_EventLogger))))
   = [ClientCall 3 ''modifyAsync''
        [JStr ''cn=u'',
         JArray [LdapChange ''replace'' [(''unicodePwd'', JBuffer [34, 0, 112, 0, 119, 0, 34, 0])]]]]
   \<and> client_calls (trace (snd (changeCredential (sample_connection (Inr 3) (\<lambda>f args. Inr Undefined))
      (JStr ''cn=u'') ''pw'' None (EncValue Undefined) (world_with new_EventLogger))))
   = [ClientCall 3 ''modifyAsync''
        [JStr ''cn=u'', JArray [LdapChange ''replace'' [(''userPassword'', JStr ''pw'')]]]]
   \<and> client_calls (trace (snd (changeCredential (sample_connection (Inr 3) (\<lambda>f args. Inr Undefined))
      (JStr ''cn=u'') ''pw'' None (EncValue (JStr ''sha'')) (world_with new_EventLogger))))
   = [ClientCall 3 ''modifyAsync''
        [JStr ''cn=u'', JArray [LdapChange ''replace'' [(''userPassword'', Undefined)]]]]"
proof -
  let ?S = "sample_connection (Inr 3) (\<lambda>f args. Inr Undefined)"
  let ?W = "world_with new_EventLogger"
  have a: "acquireAsync ?S = Inr 3"
    by (simp add: sample_connection_def)
  have t: "client_calls (trace ?W) = []"
    by (simp add: world_with_def client_calls_def)
  have c1: "client_calls (trace (snd (changeCredential ?S (JStr ''cn=u'') ''pw'' None
        (EncFunction (\<lambda>c. JStr (c @ ''!''))) ?W)))
      = [ClientCall 3 ''modifyAsync''
          [JStr ''cn=u'', JArray [LdapChange ''replace'' [(''userPassword'', JStr ''pw!'')]]]]"
    using changeCredential_single_replace
      [of ?S "JStr ''cn=u''" "''pw''" None "EncFunction (\<lambda>c. JStr (c @ ''!''))" ?W
        "\<lambda>c. JStr (c @ ''!'')" 3 Undefined] a t
    by auto
  have c2: "client_calls (trace (snd (changeCredential ?S (JStr ''cn=u'') ''pw'' (Some ''unicodePwd'')
        (EncValue (JStr ''msad'')) ?W)))
      = [ClientCall 3 ''modifyAsync''
          [JStr ''cn=u'',
           JArray [LdapChange ''replace'' [(''unicodePwd'', JBuffer [34, 0, 112, 0, 119, 0, 34, 0])]]]]"
    using changeCredential_single_replace
      [of ?S "JStr ''cn=u''" "''pw''" "Some ''unicodePwd''" "EncValue (JStr ''msad'')" ?W
        "\<lambda>c. JStr c" 3 Undefined] a t
    by auto
  have c3: "client_calls (trace (snd (changeCredential ?S (JStr ''cn=u'') ''pw'' None
        (EncValue Undefined) ?W)))
      = [ClientCall 3 ''modifyAsync''
          [JStr ''cn=u'', JArray [LdapChange ''replace'' [(''userPassword'', JStr ''pw'')]]]]"
    using changeCredential_single_replace
      [of ?S "JStr ''cn=u''" "''pw''" None "EncValue Undefined" ?W "\<lambda>c. JStr c" 3 Undefined] a t
    by auto
  have c4: "client_calls (trace (snd (changeCredential ?S (JStr ''cn=u'') ''pw'' None
        (EncValue (JStr ''sha'')) ?W)))
      = [ClientCall 3 ''modifyAsync''
          [JStr ''cn=u'', JArray [LdapChange ''replace'' [(''userPassword'', Undefined)]]]]"
    using changeCredential_single_replace
      [of ?S "JStr ''cn=u''" "''pw''" None "EncValue (JStr ''sha'')" ?W "\<lambda>c. JStr c" 3 "JStr ''sha''"] a t
    by auto
  from c1 c2 c3 c4 show ?thesis by blast
qed

subsection \<open>The credential classifier\<close>

lemma indexOf_from_range: "0 \<le> k \<Longrightarrow> indexOf_from k s t = -1 \<or> k \<le> indexOf_from k s t"
proof (induction s arbitrary: k)
  case Nil
  then show ?case by simp
next
  case (Cons c s)
  from Cons.IH[of "k + 1"] Cons.prems show ?case by auto
qed

lemma indexOf_from_start:
  "0 \<le> k \<Longrightarrow> (indexOf_from k s t = k) = (take (length t) s = t)"
proof (induction s arbitrary: k)
  case Nil
  then show ?case by auto
next
  case (Cons c s)
  have "indexOf_from (k + 1) s t \<noteq> k"
    using indexOf_from_range[of "k + 1" s t] Cons.prems by auto
  then show ?case by auto
qed

lemma indexOf_zero: "(indexOf s t = 0) = (take (length t) s = t)"
  by (simp add: indexOf_def indexOf_from_start)

text \<open>
  What the classifier computes: with a code other than 49, every non-empty message is
  classified as a failed credential unless it begins with \<^verbatim>\<open>DSID-0C0903D9\<close> (and is
  not \<^verbatim>\<open>Invalid Credentials\<close>).
\<close>

lemma isCredentialFailedError_eq:
  "isCredentialFailedError error =
     (code error = Some 49 \<or>
      (\<exists>m. lde_message error = Some m \<and> m \<noteq> [] \<and>
           (m = ''Invalid Credentials'' \<or>
            take (length ''DSID-0C0903D9'') m \<noteq> ''DSID-0C0903D9'')))"
  by (simp only: indexOf_zero[symmetric])
     (auto simp: isCredentialFailedError_def split: option.splits)

text \<open>
  Claim C3. Without code 49 the classifier should answer true exactly for the message
  \<^verbatim>\<open>Invalid Credentials\<close> and for a message that contains \<^verbatim>\<open>DSID-0C0903D9\<close>. The
  code tests the number returned by \<^verbatim>\<open>indexOf\<close> for truthiness: the error with code
  32 and message \<^verbatim>\<open>No Such Object\<close>, which does not contain the substring
  (\<^verbatim>\<open>indexOf\<close> is \<open>-1\<close>), is classified as a failed credential, and an error whose
  message begins with the substring (\<^verbatim>\<open>indexOf\<close> is \<open>0\<close>) is not.
\<close>

theorem isCredentialFailedError_truthy_index:
  "isCredentialFailedError (ErrorObject (Some 32) (Some ''No Such Object'')) = True
   \<and> indexOf ''No Such Object'' ''DSID-0C0903D9'' = -1
   \<and> isCredentialFailedError (ErrorObject None (Some ''DSID-0C0903D9: bad password'')) = False
   \<and> indexOf ''DSID-0C0903D9: bad password'' ''DSID-0C0903D9'' = 0"
  by (simp add: isCredentialFailedError_def indexOf_def)

subsection \<open>The success log of add, delete and modify\<close>

lemma performAsyncLdapOperation_resolves:
  assumes "acquireAsync this = Inr client"
    and "clientAsync this functionName (filter (\<lambda>arg. arg \<noteq> Undefined) args) = Inr v"
    and "release_logs_return this (events w)"
  shows "\<exists>E. listeners E = listeners (events w) \<and>
             performAsyncLdapOperation this functionName args w =
               (Inr v, w\<lparr>events := E,
                         trace := trace w @
                           [ClientCall client functionName (filter (\<lambda>arg. arg \<noteq> Undefined) args),
                            PoolRelease client]\<rparr>)"
proof -
  let ?fa = "filter (\<lambda>arg. arg \<noteq> Undefined) args"
  let ?cb = "\<lambda>client. client_call this client functionName ?fa"
  let ?w1 = "record_action (ClientCall client functionName ?fa) w"
  have cb: "?cb client w = (Inr v, ?w1)"
    using assms(2) by (simp add: client_call_def)
  have rel: "release_logs_return this (events ?w1)"
    using assms(3) by (simp add: record_action_def)
  from withConnection_released[of this client ?cb w "Inr v" ?w1] assms(1) cb rel
  obtain E where E: "listeners E = listeners (events ?w1)"
    "withConnection this ?cb False w = (Inr v, ?w1\<lparr>events := E, trace := trace ?w1 @ [PoolRelease client]\<rparr>)"
    by blast
  have "performAsyncLdapOperation this functionName args w =
          (Inr v, w\<lparr>events := E, trace := trace w @ [ClientCall client functionName ?fa, PoolRelease client]\<rparr>)"
    using E(2) by (simp add: performAsyncLdapOperation_def Let_def record_action_def)
  moreover have "listeners E = listeners (events w)"
    using E(1) by (simp add: record_action_def)
  ultimately show ?thesis by blast
qed

lemma p_tap_log:
  "p w = (Inr v, w') \<Longrightarrow>
   p_tap p (\<lambda>u. EventLogger_log m d) w =
     ((case fst (log m d (events w')) of None \<Rightarrow> Inr v | Some e \<Rightarrow> Inl e),
      w'\<lparr>events := snd (log m d (events w'))\<rparr>)"
  by (simp add: p_tap_def EventLogger_log_eq split: option.splits)

lemma p_tap_log_fst:
  "p w = (Inr v, w') \<Longrightarrow>
   fst (p_tap p (\<lambda>u. EventLogger_log m d) w) =
     (case fst (log m d (events w')) of None \<Rightarrow> Inr v | Some e \<Rightarrow> Inl e)"
  by (simp add: p_tap_log)

lemma p_tap_log_events:
  "p w = (Inr v, w') \<Longrightarrow>
   events (snd (p_tap p (\<lambda>u. EventLogger_log m d) w)) = snd (log m d (events (snd (p w))))"
  by (simp add: p_tap_log)

lemma tapped_operation:
  assumes "acquireAsync this = Inr client"
    and "clientAsync this functionName (filter (\<lambda>arg. arg \<noteq> Undefined) args) = Inr v"
    and "release_logs_return this (events w)"
  shows "fst (p_tap (performAsyncLdapOperation this functionName args) (\<lambda>u. EventLogger_log m d) w) =
           (case fst (log m d (events w)) of None \<Rightarrow> Inr v | Some e \<Rightarrow> Inl e)"
    and "events (snd (p_tap (performAsyncLdapOperation this functionName args) (\<lambda>u. EventLogger_log m d) w)) =
           snd (log m d (events (snd (performAsyncLdapOperation this functionName args w))))"
proof -
  from performAsyncLdapOperation_resolves[OF assms]
  obtain E where E: "listeners E = listeners (events w)"
    "performAsyncLdapOperation this functionName args w =
       (Inr v, w\<lparr>events := E,
                 trace := trace w @
                   [ClientCall client functionName (filter (\<lambda>arg. arg \<noteq> Undefined) args),
                    PoolRelease client]\<rparr>)"
    by blast
  have o: "fst (log m d E) = fst (log m d (events w))"
    by (rule log_outcome) (simp add: E(1))
  have "fst (p_tap (performAsyncLdapOperation this functionName args) (\<lambda>u. EventLogger_log m d) w) =
           (case fst (log m d E) of None \<Rightarrow> Inr v | Some e \<Rightarrow> Inl e)"
    by (subst p_tap_log_fst, rule E(2)) simp
  then show "fst (p_tap (performAsyncLdapOperation this functionName args) (\<lambda>u. EventLogger_log m d) w) =
           (case fst (log m d (events w)) of None \<Rightarrow> Inr v | Some e \<Rightarrow> Inl e)"
    by (simp only: o)
  show "events (snd (p_tap (performAsyncLdapOperation this functionName args) (\<lambda>u. EventLogger_log m d) w)) =
           snd (log m d (events (snd (performAsyncLdapOperation this functionName args w))))"
    by (rule p_tap_log_events, rule E(2))
qed

text \<open>
  Claim C6, as stated, fails: a failure of the success log is not swallowed. The
  directory call of this \<^verbatim>\<open>add\<close> succeeds and the connection is released, the one
  log listener throws on the success event, and \<^verbatim>\<open>add\<close> is rejected with what the
  listener threw.
\<close>

theorem add_log_failure_counterexample:
  "clientAsync (sample_connection (Inr 3) (\<lambda>f args. Inr (JStr ''ok''))) ''addAsync''
      [JStr ''cn=a'', JObject []] = Inr (JStr ''ok'')
   \<and> add (sample_connection (Inr 3) (\<lambda>f args. Inr (JStr ''ok''))) (JStr ''cn=a'') (JObject []) Undefined
        (world_with (snd (on ''log'' 0 (throws_on ''Added new entry to LDAP'') new_EventLogger)))
      = (Inl (ErrorObject None None),
         \<lparr>events =
            \<lparr>eventBuffer = [],
             listeners = (\<lambda>eventName. [])(''log'' := [(0, throws_on ''Added new entry to LDAP'')]),
             received =
               [(0, [JStr ''withConnection(...) Releasing LDAP connection'', Undefined]),
                (0, [JStr ''Releasing LDAP connection ldap://directory back to the connection pool'',
                     Undefined]),
                (0, [JStr ''Added new entry to LDAP'',
                     JObject [(''attributes'', JObject []), (''controls'', Undefined),
                              (''dn'', JStr ''cn=a''), (''url'', JStr ''ldap://directory'')]])]\<rparr>,
          trace = [ClientCall 3 ''addAsync'' [JStr ''cn=a'', JObject []], PoolRelease 3]\<rparr>)"
  by (simp add: add_def performAsyncLdapOperation_def withConnection_def withConnection_finally_def
      client_release_def client_call_def promise_defs EventLogger_log_def record_action_def
      log_def emit_orig_def sample_connection_def world_with_def
      new_EventLogger_def on_def newListener_def throws_on_def)

text \<open>
  Claim C6, amended. For an \<^verbatim>\<open>add\<close>, \<^verbatim>\<open>delete\<close> or \<^verbatim>\<open>modify\<close> on an acquired
  connection whose directory call succeeds with \<open>v\<close> and whose release goes through,
  the structured success event is emitted through \<^verbatim>\<open>EventLogger.log\<close> (the logger
  afterwards is the logger after that call), and the outcome of the operation is the
  outcome of that call: resolved with \<open>v\<close> when the call returns, rejected with what
  a listener threw when it throws. The failure of the success log is not swallowed.
\<close>

theorem success_log_failure_propagates:
  "acquireAsync this = Inr client \<longrightarrow> release_logs_return this (events w) \<longrightarrow>
   (clientAsync this ''addAsync'' (filter (\<lambda>arg. arg \<noteq> Undefined) [dn, attributes, controls]) = Inr v \<longrightarrow>
      fst (add this dn attributes controls w) =
        (case fst (log (JStr ''Added new entry to LDAP'')
                     (JObject [(''attributes'', attributes), (''controls'', controls), (''dn'', dn),
                               (''url'', JStr (ldapUrl this))]) (events w)) of
           None \<Rightarrow> Inr v | Some e \<Rightarrow> Inl e)
      \<and> events (snd (add this dn attributes controls w)) =
          snd (log (JStr ''Added new entry to LDAP'')
                 (JObject [(''attributes'', attributes), (''controls'', controls), (''dn'', dn),
                           (''url'', JStr (ldapUrl this))])
                 (events (snd (performAsyncLdapOperation this ''addAsync'' [dn, attributes, controls] w)))))
   \<and> (clientAsync this ''delAsync'' (filter (\<lambda>arg. arg \<noteq> Undefined) [dn, controls]) = Inr v \<longrightarrow>
      fst (delete this dn controls w) =
        (case fst (log (JStr ''Deleted entry from LDAP'')
                     (JObject [(''controls'', controls), (''dn'', dn), (''url'', JStr (ldapUrl this))])
                     (events w)) of
           None \<Rightarrow> Inr v | Some e \<Rightarrow> Inl e)
      \<and> events (snd (delete this dn controls w)) =
          snd (log (JStr ''Deleted entry from LDAP'')
                 (JObject [(''controls'', controls), (''dn'', dn), (''url'', JStr (ldapUrl this))])
                 (events (snd (performAsyncLdapOperation this ''delAsync'' [dn, controls] w)))))
   \<and> (clientAsync this ''modifyAsync'' (filter (\<lambda>arg. arg \<noteq> Undefined) [dn, changes, controls]) = Inr v \<longrightarrow>
      fst (modify this dn changes controls w) =
        (case fst (log (JStr ''Modified existing entry in LDAP'')
                     (JObject [(''changes'', changes), (''controls'', controls), (''dn'', dn),
                               (''url'', JStr (ldapUrl this))]) (events w)) of
           None \<Rightarrow> Inr v | Some e \<Rightarrow> Inl e)
      \<and> events (snd (modify this dn changes controls w)) =
          snd (log (JStr ''Modified existing entry in LDAP'')
                 (JObject [(''changes'', changes), (''controls'', controls), (''dn'', dn),
                           (''url'', JStr (ldapUrl this))])
                 (events (snd (performAsyncLdapOperation this ''modifyAsync'' [dn, changes, controls] w)))))"
  unfolding add_def delete_def modify_def
  by (intro impI conjI) (rule tapped_operation; assumption)+

theorem success_log_failure_propagates_witness:
  "fst (add (sample_connection (Inr 3) (\<lambda>f args. Inr (JStr ''ok''))) (JStr ''cn=a'') (JObject []) Undefined
        (world_with (snd (on ''log'' 0 (\<lambda>args. None) new_EventLogger))))
      = Inr (JStr ''ok'')
   \<and> fst (add (sample_connection (Inr 3) (\<lambda>f args. Inr (JStr ''ok''))) (JStr ''cn=a'') (JObject []) Undefined
        (world_with (snd (on ''log'' 0 (throws_on ''Added new entry to LDAP'') new_EventLogger))))
      = Inl (ErrorObject None None)"
proof -
  let ?S = "sample_connection (Inr 3) (\<lambda>f args. Inr (JStr ''ok''))"
  let ?W1 = "world_with (snd (on ''log'' 0 (\<lambda>args. None) new_EventLogger))"
  let ?W2 = "world_with (snd (on ''log'' 0 (throws_on ''Added new entry to LDAP'') new_EventLogger))"
  have a: "acquireAsync ?S = Inr 3"
    by (simp add: sample_connection_def)
  have c: "clientAsync ?S ''addAsync'' (filter (\<lambda>arg. arg \<noteq> Undefined) [JStr ''cn=a'', JObject [], Undefined])
      = Inr (JStr ''ok'')"
    by (simp add: sample_connection_def)
  have r1: "release_logs_return ?S (events ?W1)"
    by (simp add: release_logs_return_def world_with_def on_def newListener_def new_EventLogger_def
        log_def emit_orig_def)
  have r2: "release_logs_return ?S (events ?W2)"
    by (simp add: release_logs_return_def world_with_def on_def newListener_def new_EventLogger_def
        log_def emit_orig_def throws_on_def sample_connection_def)
  have l1: "fst (log (JStr ''Added new entry to LDAP'')
                     (JObject [(''attributes'', JObject []), (''controls'', Undefined), (''dn'', JStr ''cn=a''),
                               (''url'', JStr (ldapUrl ?S))]) (events ?W1)) = None"
    by (simp add: world_with_def on_def newListener_def new_EventLogger_def log_def emit_orig_def)
  have l2: "fst (log (JStr ''Added new entry to LDAP'')
                     (JObject [(''attributes'', JObject []), (''controls'', Undefined), (''dn'', JStr ''cn=a''),
                               (''url'', JStr (ldapUrl ?S))]) (events ?W2)) = Some (ErrorObject None None)"
    by (simp add: world_with_def on_def newListener_def new_EventLogger_def log_def emit_orig_def
        throws_on_def)
  show ?thesis
    using success_log_failure_propagates [of ?S 3 ?W1 "JStr ''cn=a''" "JObject []" Undefined "JStr ''ok''"]
      success_log_failure_propagates [of ?S 3 ?W2 "JStr ''cn=a''" "JObject []" Undefined "JStr ''ok''"]
      a c r1 r2 l1 l2
    by simp
qed

subsection \<open>testCredential\<close>




subsection \<open>The streaming search\<close>

lemma search_executor_attached:
  assumes "acquireAsync this = Inr client"
    and "clientAsync this ''searchAsync'' [baseDn, searchOptions filter_expr attributes scope] = Inr searchResult"
  shows "settled (search_executor this baseDn filter_expr attributes scope w) = settled w"
    and "results (search_executor this baseDn filter_expr attributes scope w) = []"
    and "errorHandler (search_executor this baseDn filter_expr attributes scope w)"
    and "searchEntryHandler (search_executor this baseDn filter_expr attributes scope w)"
    and "endHandler (search_executor this baseDn filter_expr attributes scope w)"
  using assms
  by (auto simp: search_executor_def withConnection_def withConnection_finally_def
      client_release_def client_call_def promise_defs EventLogger_log_def record_action_def
      split: prod.splits sum.splits option.splits)

lemma stream_entries:
  "searchEntryHandler w \<Longrightarrow>
   fold stream_emit (map SearchEntry objs) w = w\<lparr>results := results w @ objs\<rparr>"
  by (induction objs arbitrary: w) simp_all

lemma stream_emit_settled: "settled w \<noteq> Pending \<Longrightarrow> settled (stream_emit ev w) = settled w"
  by (cases ev) (simp_all add: resolve_def reject_def record_action_def)

lemma stream_settled_stable: "settled w \<noteq> Pending \<Longrightarrow> settled (fold stream_emit evs w) = settled w"
  by (induction evs arbitrary: w) (simp_all add: stream_emit_settled)

lemma stream_emit_trace: "\<exists>rest. trace (stream_emit ev w) = trace w @ rest"
  by (cases ev) (simp_all add: resolve_def reject_def record_action_def)

lemma stream_trace: "\<exists>rest. trace (fold stream_emit evs w) = trace w @ rest"
proof (induction evs arbitrary: w)
  case Nil
  show ?case by simp
next
  case (Cons ev evs)
  obtain r1 where r1: "trace (stream_emit ev w) = trace w @ r1"
    using stream_emit_trace[of ev w] by blast
  obtain r2 where r2: "trace (fold stream_emit evs (stream_emit ev w)) = trace (stream_emit ev w) @ r2"
    using Cons.IH[of "stream_emit ev w"] by blast
  have "trace (fold stream_emit (ev # evs) w) = trace w @ (r1 @ r2)"
    using r1 r2 by simp
  then show ?case by blast
qed

lemma search_executor_trace_ok:
  assumes "acquireAsync this = Inr client" and "release_logs_return this (events w)"
    and "clientAsync this ''searchAsync'' [baseDn, searchOptions filter_expr attributes scope] = Inr searchResult"
  shows "trace (search_executor this baseDn filter_expr attributes scope w) =
           trace w @ [ClientCall client ''searchAsync'' [baseDn, searchOptions filter_expr attributes scope],
                      PoolRelease client]"
proof -
  let ?args = "[baseDn, searchOptions filter_expr attributes scope]"
  let ?cb = "\<lambda>client.
               p_catch
                 (p_then (client_call this client ''searchAsync'' ?args)
                    (\<lambda>searchResult w'.
                       (Inr Undefined,
                        w'\<lparr>results := [], errorHandler := True,
                           searchEntryHandler := True, endHandler := True\<rparr>)))
                 (\<lambda>e w'. (Inr Undefined, reject e w'))"
  let ?w1 = "(record_action (ClientCall client ''searchAsync'' ?args) w)
               \<lparr>results := [], errorHandler := True, searchEntryHandler := True, endHandler := True\<rparr>"
  have cb: "?cb client w = (Inr Undefined, ?w1)"
    using assms(3) by (simp add: promise_defs client_call_def)
  have rel: "release_logs_return this (events ?w1)"
    using assms(2) by (simp add: record_action_def)
  from withConnection_released[of this client ?cb w "Inr Undefined" ?w1] assms(1) cb rel
  obtain E where "withConnection this ?cb False w =
      (Inr Undefined, ?w1\<lparr>events := E, trace := trace ?w1 @ [PoolRelease client]\<rparr>)"
    by blast
  then show ?thesis
    by (simp add: search_executor_def record_action_def)
qed

lemma search_executor_trace_failed:
  assumes "acquireAsync this = Inr client" and "release_logs_return this (events w)"
    and "settled w = Pending"
    and "clientAsync this ''searchAsync'' [baseDn, searchOptions filter_expr attributes scope] = Inl e"
  shows "trace (search_executor this baseDn filter_expr attributes scope w) =
           trace w @ [ClientCall client ''searchAsync'' [baseDn, searchOptions filter_expr attributes scope],
                      SearchSettled, PoolRelease client]"
    and "settled (search_executor this baseDn filter_expr attributes scope w) = Rejected e"
proof -
  let ?args = "[baseDn, searchOptions filter_expr attributes scope]"
  let ?cb = "\<lambda>client.
               p_catch
                 (p_then (client_call this client ''searchAsync'' ?args)
                    (\<lambda>searchResult w'.
                       (Inr Undefined,
                        w'\<lparr>results := [], errorHandler := True,
                           searchEntryHandler := True, endHandler := True\<rparr>)))
                 (\<lambda>e w'. (Inr Undefined, reject e w'))"
  let ?w1 = "reject e (record_action (ClientCall client ''searchAsync'' ?args) w)"
  have cb: "?cb client w = (Inr Undefined, ?w1)"
    using assms(4) by (simp add: promise_defs client_call_def)
  have rel: "release_logs_return this (events ?w1)"
    using assms(2) by (simp add: record_action_def reject_def)
  from withConnection_released[of this client ?cb w "Inr Undefined" ?w1] assms(1) cb rel
  obtain E where E: "withConnection this ?cb False w =
      (Inr Undefined, ?w1\<lparr>events := E, trace := trace ?w1 @ [PoolRelease client]\<rparr>)"
    by blast
  show "trace (search_executor this baseDn filter_expr attributes scope w) =
           trace w @ [ClientCall client ''searchAsync'' ?args, SearchSettled, PoolRelease client]"
    using E assms(3) by (simp add: search_executor_def record_action_def reject_def)
  show "settled (search_executor this baseDn filter_expr attributes scope w) = Rejected e"
    using E assms(3) by (simp add: search_executor_def record_action_def reject_def)
qed

text \<open>
  Claim C4. For a search whose connection was acquired and whose request was issued,
  so that the stream exists: while only entries have been emitted the promise is
  pending; at the \<^verbatim>\<open>end\<close> event it is fulfilled with the objects of the entries
  emitted so far, in the order of emission (as many as there were \<^verbatim>\<open>searchEntry\<close>
  events), and it stays fulfilled whatever the stream emits later; when an
  \<^verbatim>\<open>error\<close> event comes first, the promise is rejected with that error, stays
  rejected, and has no value: the entries collected before the error are not handed
  over.
\<close>

theorem search_collects_in_order:
  "acquireAsync this = Inr client \<longrightarrow>
   clientAsync this ''searchAsync'' [baseDn, searchOptions filter_expr attributes scope] = Inr searchResult \<longrightarrow>
     settled (search this baseDn filter_expr attributes scope (map SearchEntry objs) L) = Pending
   \<and> search_value (search this baseDn filter_expr attributes scope (map SearchEntry objs @ [StreamEnd]) L)
        = Some objs
   \<and> map_option length
        (search_value (search this baseDn filter_expr attributes scope (map SearchEntry objs @ [StreamEnd]) L))
        = Some (length (map SearchEntry objs))
   \<and> settled (search this baseDn filter_expr attributes scope (map SearchEntry objs @ StreamEnd # rest) L)
        = Fulfilled
   \<and> settled (search this baseDn filter_expr attributes scope (map SearchEntry objs @ StreamError e # rest) L)
        = Rejected e
   \<and> search_value (search this baseDn filter_expr attributes scope (map SearchEntry objs @ StreamError e # rest) L)
        = None"
proof (intro impI)
  assume a: "acquireAsync this = Inr client"
    and b: "clientAsync this ''searchAsync'' [baseDn, searchOptions filter_expr attributes scope] = Inr searchResult"
  let ?w0 = "search_executor this baseDn filter_expr attributes scope (new_search L)"
  note at = search_executor_attached[OF a b, of "new_search L"]
  have p: "settled ?w0 = Pending"
    using at(1) by (simp add: new_search_def)
  let ?w1 = "fold stream_emit (map SearchEntry objs) ?w0"
  have w1: "?w1 = ?w0\<lparr>results := objs\<rparr>"
    using stream_entries[OF at(4), of objs] at(2) by simp
  have e1: "settled (stream_emit StreamEnd ?w1) = Fulfilled"
    using w1 at p by (simp add: resolve_def record_action_def)
  have e2: "results (stream_emit StreamEnd ?w1) = objs"
    using w1 at p by (simp add: resolve_def record_action_def)
  have r1: "settled (stream_emit (StreamError e) ?w1) = Rejected e"
    using w1 at p by (simp add: reject_def record_action_def)
  have c1: "settled (search this baseDn filter_expr attributes scope (map SearchEntry objs) L) = Pending"
    using w1 p by (simp add: search_def)
  have c2: "search_value (search this baseDn filter_expr attributes scope (map SearchEntry objs @ [StreamEnd]) L)
        = Some objs"
    using e1 e2 by (simp add: search_def search_value_def)
  have c3: "settled (search this baseDn filter_expr attributes scope (map SearchEntry objs @ StreamEnd # rest) L)
        = Fulfilled"
    using e1 stream_settled_stable[of "stream_emit StreamEnd ?w1" rest] by (simp add: search_def)
  have c4: "settled (search this baseDn filter_expr attributes scope (map SearchEntry objs @ StreamError e # rest) L)
        = Rejected e"
    using r1 stream_settled_stable[of "stream_emit (StreamError e) ?w1" rest] by (simp add: search_def)
  have c5: "search_value (search this baseDn filter_expr attributes scope (map SearchEntry objs @ StreamError e # rest) L)
        = None"
    using c4 by (simp add: search_value_def)
  show "settled (search this baseDn filter_expr attributes scope (map SearchEntry objs) L) = Pending
   \<and> search_value (search this baseDn filter_expr attributes scope (map SearchEntry objs @ [StreamEnd]) L)
        = Some objs
   \<and> map_option length
        (search_value (search this baseDn filter_expr attributes scope (map SearchEntry objs @ [StreamEnd]) L))
        = Some (length (map SearchEntry objs))
   \<and> settled (search this baseDn filter_expr attributes scope (map SearchEntry objs @ StreamEnd # rest) L)
        = Fulfilled
   \<and> settled (search this baseDn filter_expr attributes scope (map SearchEntry objs @ StreamError e # rest) L)
        = Rejected e
   \<and> search_value (search this baseDn filter_expr attributes scope (map SearchEntry objs @ StreamError e # rest) L)
        = None"
    using c1 c2 c3 c4 c5 by simp
qed

theorem search_collects_in_order_witness:
  "search_value (search (sample_connection (Inr 3) (\<lambda>f args. Inr Undefined))
      (JStr ''ou=People'') (JStr ''(cn=a)'') Undefined Undefined
      [SearchEntry (JStr ''first''), SearchEntry (JStr ''second''), StreamEnd] new_EventLogger)
     = Some [JStr ''first'', JStr ''second'']
   \<and> settled (search (sample_connection (Inr 3) (\<lambda>f args. Inr Undefined))
      (JStr ''ou=People'') (JStr ''(cn=a)'') Undefined Undefined
      [SearchEntry (JStr ''first''), SearchEntry (JStr ''second''), StreamError TypeError, StreamEnd]
      new_EventLogger)
     = Rejected TypeError"
proof -
  have a: "acquireAsync (sample_connection (Inr 3) (\<lambda>f args. Inr Undefined)) = Inr 3"
    by (simp add: sample_connection_def)
  have b: "clientAsync (sample_connection (Inr 3) (\<lambda>f args. Inr Undefined)) ''searchAsync''
      [JStr ''ou=People'', searchOptions (JStr ''(cn=a)'') Undefined Undefined] = Inr Undefined"
    by (simp add: sample_connection_def)
  show ?thesis
    using search_collects_in_order
      [of "sample_connection (Inr 3) (\<lambda>f args. Inr Undefined)" 3 "JStr ''ou=People''"
        "JStr ''(cn=a)''" Undefined Undefined Undefined "[JStr ''first'', JStr ''second'']"
        new_EventLogger "[StreamEnd]" TypeError] a b
    by simp
qed

text \<open>
  What a search whose request is issued does with its connection, for any stream: the
  callback given to \<^verbatim>\<open>withConnection\<close> resolves as soon as the three handlers are
  attached to the search result, so the release is the second action of the search,
  made while the promise is pending, and whatever the stream emits comes after it.
\<close>

lemma search_release_precedes_stream:
  assumes "acquireAsync this = Inr client" and "release_logs_return this L"
    and "clientAsync this ''searchAsync'' [baseDn, searchOptions filter_expr attributes scope] = Inr searchResult"
  shows "settled (search_executor this baseDn filter_expr attributes scope (new_search L)) = Pending"
    and "\<exists>rest. trace (search this baseDn filter_expr attributes scope stream L) =
           [ClientCall client ''searchAsync'' [baseDn, searchOptions filter_expr attributes scope],
            PoolRelease client] @ rest"
proof -
  let ?w0 = "search_executor this baseDn filter_expr attributes scope (new_search L)"
  show "settled ?w0 = Pending"
    using search_executor_attached(1)[OF assms(1) assms(3), of "new_search L"]
    by (simp add: new_search_def)
  have q: "release_logs_return this (events (new_search L))"
    using assms(2) by (simp add: new_search_def)
  have t: "trace ?w0 =
      [ClientCall client ''searchAsync'' [baseDn, searchOptions filter_expr attributes scope],
       PoolRelease client]"
    using search_executor_trace_ok[OF assms(1) q assms(3)] by (simp add: new_search_def)
  obtain rest where "trace (fold stream_emit stream ?w0) = trace ?w0 @ rest"
    using stream_trace[of stream ?w0] by blast
  then have "trace (search this baseDn filter_expr attributes scope stream L) =
           [ClientCall client ''searchAsync'' [baseDn, searchOptions filter_expr attributes scope],
            PoolRelease client] @ rest"
    using t by (simp add: search_def)
  then show "\<exists>rest. trace (search this baseDn filter_expr attributes scope stream L) =
           [ClientCall client ''searchAsync'' [baseDn, searchOptions filter_expr attributes scope],
            PoolRelease client] @ rest"
    by blast
qed

text \<open>
  Claim C5. The connection of a search should be released only after the result has
  settled, on the success and on the failure path, and never leaked. In the first
  search below the request is issued and the stream emits one entry and then ends: the
  connection is released as soon as the handlers are attached, while the promise is
  still pending, and the promise settles after the release, when the stream ends. In
  the second search the request fails: there the promise is rejected first and the
  connection released afterwards, as the claim says. In the third search a log
  listener throws in one of the two calls of \<^verbatim>\<open>EventLogger.log\<close> that precede
  \<^verbatim>\<open>pool.release\<close>: the connection is neither released nor disposed.
\<close>

theorem search_releases_before_settle:
  "trace (search (sample_connection (Inr 3) (\<lambda>f args. Inr Undefined))
      (JStr ''ou=People'') (JStr ''(cn=a)'') Undefined Undefined
      [SearchEntry (JStr ''first''), StreamEnd] new_EventLogger)
     = [ClientCall 3 ''searchAsync''
          [JStr ''ou=People'',
           JObject [(''attributes'', JArray []), (''filter'', JStr ''(cn=a)''), (''scope'', JStr ''one'')]],
        PoolRelease 3, SearchSettled]
   \<and> trace (search_executor (sample_connection (Inr 3) (\<lambda>f args. Inr Undefined))
      (JStr ''ou=People'') (JStr ''(cn=a)'') Undefined Undefined (new_search new_EventLogger))
     = [ClientCall 3 ''searchAsync''
          [JStr ''ou=People'',
           JObject [(''attributes'', JArray []), (''filter'', JStr ''(cn=a)''), (''scope'', JStr ''one'')]],
        PoolRelease 3]
   \<and> settled (search_executor (sample_connection (Inr 3) (\<lambda>f args. Inr Undefined))
      (JStr ''ou=People'') (JStr ''(cn=a)'') Undefined Undefined (new_search new_EventLogger))
     = Pending
   \<and> settled (search (sample_connection (Inr 3) (\<lambda>f args. Inr Undefined))
      (JStr ''ou=People'') (JStr ''(cn=a)'') Undefined Undefined
      [SearchEntry (JStr ''first''), StreamEnd] new_EventLogger)
     = Fulfilled
   \<and> trace (search (sample_connection (Inr 3) (\<lambda>f args. Inl (ErrorObject (Some 32) None)))
      (JStr ''ou=People'') (JStr ''(cn=a)'') Undefined Undefined [] new_EventLogger)
     = [ClientCall 3 ''searchAsync''
          [JStr ''ou=People'',
           JObject [(''attributes'', JArray []), (''filter'', JStr ''(cn=a)''), (''scope'', JStr ''one'')]],
        SearchSettled, PoolRelease 3]
   \<and> settled (search (sample_connection (Inr 3) (\<lambda>f args. Inl (ErrorObject (Some 32) None)))
      (JStr ''ou=People'') (JStr ''(cn=a)'') Undefined Undefined [] new_EventLogger)
     = Rejected (ErrorObject (Some 32) None)
   \<and> trace (search (sample_connection (Inr 3) (\<lambda>f args. Inr Undefined))
      (JStr ''ou=People'') (JStr ''(cn=a)'') Undefined Undefined
      [SearchEntry (JStr ''first''), StreamEnd]
      (snd (on ''log'' 0 (\<lambda>args. Some (ErrorObject None None)) new_EventLogger)))
     = [ClientCall 3 ''searchAsync''
          [JStr ''ou=People'',
           JObject [(''attributes'', JArray []), (''filter'', JStr ''(cn=a)''), (''scope'', JStr ''one'')]],
        SearchSettled]"
  by (simp add: search_def search_executor_def searchOptions_def new_search_def
      withConnection_def withConnection_finally_def
      client_release_def client_call_def promise_defs EventLogger_log_def record_action_def
      log_def emit_orig_def sample_connection_def new_EventLogger_def resolve_def reject_def
      on_def newListener_def)

end
